theory Spec2Isabelle
  imports Main "HOL-Library.Sublist"
begin

section \<open>Python values, dictionaries and exceptions\<close>

text \<open>
  The handler \<^verbatim>\<open>generate_image\<close> of \<^verbatim>\<open>server.py\<close> works on Python dictionaries with string
  keys. A dictionary is an association list in insertion order; the values that occur
  are \<^verbatim>\<open>None\<close>, booleans, integers and strings.
\<close>

datatype pyval = PNone | PBool bool | PInt int | PStr string

type_synonym pydict = "(string \<times> pyval) list"

text \<open>
  An exception object: its class name and the text \<^verbatim>\<open>str(e)\<close>. The type stands for the
  instances of \<^verbatim>\<open>Exception\<close>, which is what both \<^verbatim>\<open>except Exception\<close> clauses of the
  handler catch.
\<close>

datatype py_exception = PyException (exc_class: string) (exc_str: string)

text \<open>Truth value of a Python object, as tested by \<^verbatim>\<open>if x:\<close>.\<close>

fun truthy :: "pyval \<Rightarrow> bool" where
  "truthy PNone = False"
| "truthy (PBool b) = b"
| "truthy (PInt i) = (i \<noteq> 0)"
| "truthy (PStr s) = (s \<noteq> [])"

text \<open>\<^verbatim>\<open>d.get(k)\<close>: \<^verbatim>\<open>None\<close> of the option type is an absent key.\<close>

definition dict_get :: "pydict \<Rightarrow> string \<Rightarrow> pyval option" where
  "dict_get d k = map_of d k"

text \<open>\<^verbatim>\<open>d.get(k, default)\<close>: the default is returned only when the key is absent.\<close>

definition dict_get_default :: "pydict \<Rightarrow> string \<Rightarrow> pyval \<Rightarrow> pyval" where
  "dict_get_default d k dflt = (case map_of d k of None \<Rightarrow> dflt | Some v \<Rightarrow> v)"

text \<open>\<^verbatim>\<open>d[k]\<close>: a missing key raises \<^verbatim>\<open>KeyError\<close>, whose text is the \<^verbatim>\<open>repr\<close> of the key.\<close>

definition dict_subscript :: "pydict \<Rightarrow> string \<Rightarrow> py_exception + pyval" where
  "dict_subscript d k =
    (case map_of d k of
       None \<Rightarrow> Inl (PyException ''KeyError'' ([CHR 0x27] @ k @ [CHR 0x27]))
     | Some v \<Rightarrow> Inr v)"

text \<open>\<^verbatim>\<open>d[k] = v\<close>: an existing key keeps its position, a new key goes last.\<close>

fun dict_set :: "pydict \<Rightarrow> string \<Rightarrow> pyval \<Rightarrow> pydict" where
  "dict_set [] k v = [(k, v)]"
| "dict_set ((k', v') # d) k v = (if k' = k then (k, v) # d else (k', v') # dict_set d k v)"

definition of_optional_str :: "string option \<Rightarrow> pyval" where
  "of_optional_str x = (case x of None \<Rightarrow> PNone | Some t \<Rightarrow> PStr t)"

section \<open>Calendar rendering of a timestamp\<close>

text \<open>
  \<^verbatim>\<open>datetime.datetime.fromtimestamp(timestamp).strftime("%Y%m%d_%H%M%S")\<close> renders epoch
  seconds in the local time zone of the process. The zone enters as its offset from UTC
  in seconds. The date is the proleptic Gregorian one, computed from the day's ordinal
  (day 1 is 1 January of year 1) by cycles of 400, 100, 4 and 1 years, as \<^verbatim>\<open>datetime\<close>
  does. The platform is a POSIX one with a 64-bit \<^verbatim>\<open>time_t\<close>.
\<close>

record datetime =
  year :: int
  month :: int
  day :: int
  hour :: int
  minute :: int
  second :: int

definition month_lengths :: "bool \<Rightarrow> int list" where
  "month_lengths leapyear =
    [31, if leapyear then 29 else 28, 31, 30, 31, 30, 31, 31, 30, 31, 30, 31]"

text \<open>The month and the day of the month of the \<open>n\<close>-th day of a year, counted from 0.\<close>

fun month_and_day :: "int list \<Rightarrow> int \<Rightarrow> int \<Rightarrow> int \<times> int" where
  "month_and_day [] m n = (m, n + 1)"
| "month_and_day (len # rest) m n =
     (if n < len then (m, n + 1) else month_and_day rest (m + 1) (n - len))"

definition ord2ymd :: "int \<Rightarrow> int \<times> int \<times> int" where
  "ord2ymd ordinal =
    (let n = ordinal - 1;
         n400 = n div 146097; r400 = n mod 146097;
         n100 = r400 div 36524; r100 = r400 mod 36524;
         n4 = r100 div 1461; r4 = r100 mod 1461;
         n1 = r4 div 365; r1 = r4 mod 365;
         y = n400 * 400 + 1 + n100 * 100 + n4 * 4 + n1
     in if n1 = 4 \<or> n100 = 4 then (y - 1, 12, 31)
        else (y, month_and_day (month_lengths (n1 = 3 \<and> (n4 \<noteq> 24 \<or> n100 = 3))) 1 r1))"

definition digit :: "int \<Rightarrow> char" where
  "digit k = ''0123456789'' ! nat k"

text \<open>The decimal digits of a number, without padding.\<close>

fun decimal :: "nat \<Rightarrow> string" where
  "decimal k = (if k < 10 then [digit (int k)] else decimal (k div 10) @ [digit (int (k mod 10))])"

declare decimal.simps [simp del]

text \<open>\<^verbatim>\<open>time.localtime(t)\<close>: the calendar fields of the timestamp shifted by the zone's offset.\<close>

definition localtime :: "int \<Rightarrow> int \<Rightarrow> datetime" where
  "localtime utc_offset timestamp =
    (let local = timestamp + utc_offset;
         days = local div 86400;
         secs = local mod 86400
     in case ord2ymd (days + 719163) of (y, m, d) \<Rightarrow>
        \<lparr>year = y, month = m, day = d, hour = secs div 3600,
         minute = (secs mod 3600) div 60, second = secs mod 60\<rparr>)"

definition pad2 :: "int \<Rightarrow> string" where
  "pad2 k = [digit (k div 10), digit (k mod 10)]"

definition pad4 :: "int \<Rightarrow> string" where
  "pad4 k = [digit (k div 1000), digit ((k div 100) mod 10), digit ((k div 10) mod 10), digit (k mod 10)]"

text \<open>
  \<^verbatim>\<open>%Y\<close>: the C library decides whether a year below 1000 is padded with zeros to four
  digits (glibc does not pad it); from 1000 to 9999 both renderings are the same.
\<close>

definition year_field :: "bool \<Rightarrow> int \<Rightarrow> string" where
  "year_field pads y = (if pads then pad4 y else decimal (nat y))"

text \<open>The format \<^verbatim>\<open>"%Y%m%d_%H%M%S"\<close>, on a platform that pads the year or not.\<close>

definition strftime :: "bool \<Rightarrow> datetime \<Rightarrow> string" where
  "strftime pads dt = year_field pads (year dt) @ pad2 (month dt) @ pad2 (day dt) @ ''_''
                      @ pad2 (hour dt) @ pad2 (minute dt) @ pad2 (second dt)"


section \<open>The tool's arguments and the remote reply\<close>

text \<open>
  \<^verbatim>\<open>size\<close>, \<^verbatim>\<open>quality\<close> and \<^verbatim>\<open>style\<close> are closed \<^verbatim>\<open>Literal\<close> types that the handler never
  inspects, so they are enumerations. \<^verbatim>\<open>model\<close> is a \<^verbatim>\<open>Literal\<close> too, but the handler checks
  its value itself, so it is a string here; \<^verbatim>\<open>n\<close> is a Python integer. The parameters
  \<^verbatim>\<open>n\<close> and \<^verbatim>\<open>size\<close> are the fields \<open>n_images\<close> and \<open>img_size\<close>.
\<close>

datatype image_size = S1024x1024 | S1792x1024 | S1024x1792

fun size_str :: "image_size \<Rightarrow> string" where
  "size_str S1024x1024 = ''1024x1024''"
| "size_str S1792x1024 = ''1792x1024''"
| "size_str S1024x1792 = ''1024x1792''"

datatype image_quality = Standard | Hd

fun quality_str :: "image_quality \<Rightarrow> string" where
  "quality_str Standard = ''standard''"
| "quality_str Hd = ''hd''"

datatype image_style = Natural | Vivid

fun style_str :: "image_style \<Rightarrow> string" where
  "style_str Natural = ''natural''"
| "style_str Vivid = ''vivid''"

record request =
  prompt :: string
  img_size :: image_size
  quality :: image_quality
  n_images :: int
  style :: "image_style option"
  model :: string
  revise_prompt :: bool

text \<open>
  One image of the reply: \<^verbatim>\<open>url\<close> is the attribute \<^verbatim>\<open>result.data[i].url\<close>, and \<^verbatim>\<open>dumped\<close> is
  the image's dictionary in \<^verbatim>\<open>json.loads(result.model_dump_json())\<close>, which the handler
  reads with \<^verbatim>\<open>.get("revised_prompt", prompt)\<close>.
\<close>

record image =
  url :: "string option"
  dumped :: pydict

record reply =
  created :: int
  data :: "image list"

section \<open>The world outside the handler\<close>

datatype call = ImagesGenerate pydict | HttpGet string

datatype file_content = ImageBytes string | JsonDocument pydict

text \<open>
  The state the handler reads and changes: the history list of the lifespan context
  (\<^verbatim>\<open>generated_images\<close>), the network calls made so far, and the directories and files
  of the local storage.
\<close>

record state =
  generated_images :: "pydict list"
  calls :: "call list"
  dirs :: "string set"
  files :: "string \<rightharpoonup> file_content"

text \<open>
  The collaborators, which the handler does not control: the remote image client
  (\<^verbatim>\<open>client.images.generate(**params)\<close>), the local zone's UTC offset, the exception the
  platform's \<^verbatim>\<open>datetime\<close> raises for a timestamp it cannot render, whether the platform's
  \<^verbatim>\<open>%Y\<close> pads the year, the directory of \<^verbatim>\<open>server.py\<close>, the download
  (\<^verbatim>\<open>requests.get(url).content\<close>), and the errors the file system answers to
  \<^verbatim>\<open>os.makedirs\<close> and to opening and writing a file.
\<close>

record env =
  images_generate :: "pydict \<Rightarrow> py_exception + reply"
  utc_offset :: int
  fromtimestamp_error :: "int \<Rightarrow> py_exception"
  pads_year :: bool
  module_dir :: string
  requests_get :: "string \<Rightarrow> py_exception + string"
  makedirs_error :: "string \<Rightarrow> py_exception option"
  write_error :: "string \<Rightarrow> py_exception option"

text \<open>
  \<^verbatim>\<open>datetime.datetime.fromtimestamp(timestamp)\<close>: the local time of the timestamp, as a
  \<^verbatim>\<open>datetime\<close>, whose year must lie between 1 and 9999. To detect a repeated hour the
  library also takes the local time 24 hours earlier, under the same bound on the year;
  so the first day of year 1 is refused too. A timestamp that is refused raises the
  platform's exception (\<^verbatim>\<open>ValueError\<close>, \<^verbatim>\<open>OverflowError\<close> or \<^verbatim>\<open>OSError\<close>).
\<close>

definition fromtimestamp :: "env \<Rightarrow> int \<Rightarrow> py_exception + datetime" where
  "fromtimestamp e timestamp =
    (let result = localtime (utc_offset e) timestamp;
         probe = localtime (utc_offset e) (timestamp - 24 * 3600)
     in if year result < 1 \<or> 9999 < year result \<or> year probe < 1 \<or> 9999 < year probe
        then Inl (fromtimestamp_error e timestamp)
        else Inr result)"

text \<open>\<^verbatim>\<open>os.path.join(a, b)\<close> on POSIX.\<close>

definition path_join :: "string \<Rightarrow> string \<Rightarrow> string" where
  "path_join a b =
    (if b \<noteq> [] \<and> hd b = CHR ''/'' then b
     else if a = [] \<or> last a = CHR ''/'' then a @ b
     else a @ ''/'' @ b)"

definition isdir :: "state \<Rightarrow> string \<Rightarrow> bool" where
  "isdir s p = (p \<in> dirs s)"

definition path_exists :: "state \<Rightarrow> string \<Rightarrow> bool" where
  "path_exists s p = (p \<in> dirs s \<or> p \<in> dom (files s))"

text \<open>
  A statement of the handler is an action: from a state it raises (\<open>Inl\<close>) or returns
  (\<open>Inr\<close>), and leaves a state. \<open>and_then\<close> runs the next statement unless the first one
  raised; what was done before an exception stays done.
\<close>

type_synonym 'a action = "state \<Rightarrow> (py_exception + 'a) \<times> state"

definition return :: "'a \<Rightarrow> 'a action" where
  "return x s = (Inr x, s)"

definition lift :: "py_exception + 'a \<Rightarrow> 'a action" where
  "lift r s = (r, s)"

definition and_then :: "'a action \<Rightarrow> ('a \<Rightarrow> 'b action) \<Rightarrow> 'b action" where
  "and_then m f s =
    (case m s of
       (Inl err, s') \<Rightarrow> (Inl err, s')
     | (Inr x, s') \<Rightarrow> f x s')"

text \<open>\<^verbatim>\<open>os.makedirs(p)\<close>: raises what the file system answers, or records the directory.\<close>

definition makedirs :: "env \<Rightarrow> string \<Rightarrow> unit action" where
  "makedirs e p s =
    (case makedirs_error e p of
       Some err \<Rightarrow> (Inl err, s)
     | None \<Rightarrow> (Inr (), s\<lparr>dirs := insert p (dirs s)\<rparr>))"

text \<open>
  \<^verbatim>\<open>with open(p, mode) as f:\<close> followed by one write of the whole content
  (\<^verbatim>\<open>f.write(bytes)\<close> or \<^verbatim>\<open>json.dump(metadata, f, indent=2)\<close>). The file holds the document
  that was written; the JSON text itself is the library's business.
\<close>

definition write_file :: "env \<Rightarrow> string \<Rightarrow> file_content \<Rightarrow> unit action" where
  "write_file e p c s =
    (case write_error e p of
       Some err \<Rightarrow> (Inl err, s)
     | None \<Rightarrow> (Inr (), s\<lparr>files := (files s)(p \<mapsto> c)\<rparr>))"

text \<open>\<^verbatim>\<open>json.load\<close> of a file: the document, when the file holds one.\<close>

definition json_load :: "state \<Rightarrow> string \<Rightarrow> pydict option" where
  "json_load s p =
    (case files s p of
       Some (JsonDocument d) \<Rightarrow> Some d
     | _ \<Rightarrow> None)"

text \<open>\<^verbatim>\<open>requests.get(url).content\<close>: a network call, which may raise.\<close>

definition http_get :: "env \<Rightarrow> string \<Rightarrow> string action" where
  "http_get e u s = (requests_get e u, s\<lparr>calls := calls s @ [HttpGet u]\<rparr>)"

text \<open>\<^verbatim>\<open>client.images.generate(**params)\<close>: the remote call, which may raise.\<close>

definition client_images_generate :: "env \<Rightarrow> pydict \<Rightarrow> reply action" where
  "client_images_generate e params s =
    (images_generate e params, s\<lparr>calls := calls s @ [ImagesGenerate params]\<rparr>)"

section \<open>The handler\<close>

text \<open>Lines 107 to 123: the outbound prompt and the request payload.\<close>

definition modified_prompt :: "request \<Rightarrow> string" where
  "modified_prompt a =
    (if \<not> revise_prompt a then prompt a @ '' do not modify my prompt'' else prompt a)"

definition build_params :: "request \<Rightarrow> pydict" where
  "build_params a =
    (let params = [(''model'', PStr (model a)),
                   (''prompt'', PStr (modified_prompt a)),
                   (''n'', PInt (n_images a)),
                   (''size'', PStr (size_str (img_size a))),
                   (''quality'', PStr (quality_str (quality a)))]
     in case style a of
          Some st \<Rightarrow> dict_set params ''style'' (PStr (style_str st))
        | None \<Rightarrow> params)"

definition style_value :: "request \<Rightarrow> pyval" where
  "style_value a = (case style a of None \<Rightarrow> PNone | Some st \<Rightarrow> PStr (style_str st))"

text \<open>Lines 171 to 180: the metadata dictionary.\<close>

definition build_metadata :: "request \<Rightarrow> pyval \<Rightarrow> int \<Rightarrow> string \<Rightarrow> pydict" where
  "build_metadata a revised timestamp image_path =
    [(''prompt'', PStr (prompt a)),
     (''revised_prompt'', revised),
     (''model'', PStr (model a)),
     (''size'', PStr (size_str (img_size a))),
     (''quality'', PStr (quality_str (quality a))),
     (''style'', style_value a),
     (''timestamp'', PInt timestamp),
     (''image_path'', PStr image_path)]"

text \<open>
  Lines 151 to 188, the body of the inner \<^verbatim>\<open>try\<close>: the two directories, the download,
  the image file, the metadata file, and the two paths added to the response.
\<close>

definition save_locally ::
  "env \<Rightarrow> request \<Rightarrow> pydict \<Rightarrow> int \<Rightarrow> string \<Rightarrow> string \<Rightarrow> pydict action" where
  "save_locally e a response timestamp timestamp_str image_url =
    (let images_dir = path_join (module_dir e) ''images'';
         image_folder = path_join images_dir timestamp_str;
         image_path = path_join image_folder ''generated_image.png'';
         metadata_path = path_join image_folder ''metadata.json''
     in
     and_then (\<lambda>s. if \<not> isdir s images_dir then makedirs e images_dir s else return () s) (\<lambda>_.
     and_then (\<lambda>s. if \<not> path_exists s image_folder then makedirs e image_folder s else return () s) (\<lambda>_.
     and_then (http_get e image_url) (\<lambda>generated_image.
     and_then (write_file e image_path (ImageBytes generated_image)) (\<lambda>_.
     and_then (lift (dict_subscript response ''revised_prompt'')) (\<lambda>revised.
     and_then (write_file e metadata_path
                 (JsonDocument (build_metadata a revised timestamp image_path))) (\<lambda>_.
     return (dict_set (dict_set response ''local_image_path'' (PStr image_path))
                      ''local_metadata_path'' (PStr metadata_path)))))))))"

text \<open>
  Lines 149 to 195: the download is tried only for a truthy \<^verbatim>\<open>url\<close>, and
  \<^verbatim>\<open>except Exception as download_error\<close> keeps the response as it was.
\<close>

definition save_if_url ::
  "env \<Rightarrow> request \<Rightarrow> pydict \<Rightarrow> int \<Rightarrow> string \<Rightarrow> string option \<Rightarrow> pydict action" where
  "save_if_url e a response timestamp timestamp_str image_url s =
    (case image_url of
       None \<Rightarrow> (Inr response, s)
     | Some u \<Rightarrow>
         if truthy (PStr u) then
           (case save_locally e a response timestamp timestamp_str u s of
              (Inl download_error, s') \<Rightarrow> (Inr response, s')
            | (Inr response', s') \<Rightarrow> (Inr response', s'))
         else (Inr response, s))"

text \<open>\<^verbatim>\<open>ctx.request_context.lifespan_context.generated_images.append(response)\<close>.\<close>

definition append_history :: "pydict \<Rightarrow> unit action" where
  "append_history response s = (Inr (), s\<lparr>generated_images := generated_images s @ [response]\<rparr>)"

text \<open>\<^verbatim>\<open>xs[0]\<close> on a list.\<close>

definition first_item :: "'a list \<Rightarrow> py_exception + 'a" where
  "first_item xs =
    (case xs of
       [] \<Rightarrow> Inl (PyException ''IndexError'' ''list index out of range'')
     | x # rest \<Rightarrow> Inr x)"

text \<open>
  Lines 137 to 146: the response literal, from the reply and its first image.
  \<^verbatim>\<open>.get("revised_prompt", prompt)\<close> falls back to the caller's prompt only when the key
  is absent from the dumped image.
\<close>

definition build_response :: "request \<Rightarrow> reply \<Rightarrow> image \<Rightarrow> pydict" where
  "build_response a result img =
    [(''success'', PBool True),
     (''revised_prompt'', dict_get_default (dumped img) ''revised_prompt'' (PStr (prompt a))),
     (''url'', of_optional_str (url img)),
     (''model'', PStr (model a)),
     (''size'', PStr (size_str (img_size a))),
     (''quality'', PStr (quality_str (quality a))),
     (''style'', style_value a),
     (''timestamp'', PInt (created result))]"

text \<open>
  Lines 130 to 201, what the outer \<^verbatim>\<open>try\<close> does with the reply. The values of the response
  literal are evaluated in order, so \<^verbatim>\<open>response_dict.get("data", [{}])[0]\<close> of line 139
  runs before the guarded \<^verbatim>\<open>result.data[0].url if result.data else None\<close> of line 140, and
  raises \<^verbatim>\<open>IndexError\<close> on an empty list (the key \<^verbatim>\<open>data\<close> is always in the dump, so the
  default \<^verbatim>\<open>[{}]\<close> is never taken).
\<close>

definition handle_reply :: "env \<Rightarrow> request \<Rightarrow> reply \<Rightarrow> pydict action" where
  "handle_reply e a result =
     and_then (lift (fromtimestamp e (created result))) (\<lambda>dt.
     and_then (lift (first_item (data result))) (\<lambda>img.
     and_then (save_if_url e a (build_response a result img)
                 (created result) (strftime (pads_year e) dt) (url img)) (\<lambda>response.
     and_then (append_history response) (\<lambda>_.
     return response))))"

text \<open>Lines 126 to 201, the body of the outer \<^verbatim>\<open>try\<close>.\<close>

definition try_generate :: "env \<Rightarrow> request \<Rightarrow> pydict \<Rightarrow> pydict action" where
  "try_generate e a params = and_then (client_images_generate e params) (handle_reply e a)"

text \<open>
  The handler: \<open>Inl\<close> is an exception raised to the caller, \<open>Inr\<close> the dictionary
  returned. \<^verbatim>\<open>except Exception as e\<close> turns an exception of the body into the
  failure record.
\<close>

definition generate_image :: "env \<Rightarrow> request \<Rightarrow> pydict action" where
  "generate_image e a s =
    (if n_images a < 1 \<or> n_images a > 10 then
       (Inl (PyException ''ValueError'' ''Number of images (n) must be between 1 and 10''), s)
     else if model a \<notin> set [''dalle3'', ''dalle2''] then
       (Inl (PyException ''ValueError'' (''Model must be either 'dalle3' or 'dalle2'' @ [CHR 0x27])), s)
     else
       case try_generate e a (build_params a) s of
         (Inl err, s') \<Rightarrow> (Inr [(''success'', PBool False), (''error'', PStr (exc_str err))], s')
       | (Inr response, s') \<Rightarrow> (Inr response, s'))"

section \<open>Observations on a call\<close>

text \<open>The payloads the call sent to the remote image client: those logged since \<open>s\<close>.\<close>

fun payloads :: "call list \<Rightarrow> pydict list" where
  "payloads [] = []"
| "payloads (ImagesGenerate p # cs) = p # payloads cs"
| "payloads (HttpGet u # cs) = payloads cs"

definition sent_to_client :: "state \<Rightarrow> state \<Rightarrow> pydict list" where
  "sent_to_client s s' = payloads (drop (length (calls s)) (calls s'))"

text \<open>
  What the persistence may do to the state: it sends nothing to the remote client and
  leaves the history alone.
\<close>

definition no_remote_call :: "state \<Rightarrow> state \<Rightarrow> bool" where
  "no_remote_call s s' =
    (take (length (calls s)) (calls s') = calls s
     \<and> payloads (drop (length (calls s)) (calls s')) = [])"

definition local_effects_only :: "state \<Rightarrow> state \<Rightarrow> bool" where
  "local_effects_only s s' = (generated_images s' = generated_images s \<and> no_remote_call s s')"

text \<open>A month from 1 to 12 with a day from 1 to 31, and a decimal digit.\<close>

definition valid_month_day :: "int \<times> int \<Rightarrow> bool" where
  "valid_month_day md = (1 \<le> fst md \<and> fst md \<le> 12 \<and> 1 \<le> snd md \<and> snd md \<le> 31)"

definition is_digit :: "char \<Rightarrow> bool" where
  "is_digit c = (c \<in> set ''0123456789'')"

text \<open>The handler's own argument check, lines 100 and 104.\<close>

definition valid_arguments :: "request \<Rightarrow> bool" where
  "valid_arguments a = (1 \<le> n_images a \<and> n_images a \<le> 10 \<and> model a \<in> {''dalle3'', ''dalle2''})"

text \<open>
  Some step of the local persistence fails, in the words of the specification: creating
  the base directory or the timestamp folder (where it is missing), downloading the
  image, writing the image file, or writing the metadata file.
\<close>

definition folder_creation_fails :: "env \<Rightarrow> state \<Rightarrow> string \<Rightarrow> bool" where
  "folder_creation_fails e s timestamp_str =
    (let images_dir = path_join (module_dir e) ''images'';
         image_folder = path_join images_dir timestamp_str
     in (\<not> isdir s images_dir \<and> makedirs_error e images_dir \<noteq> None)
      \<or> (image_folder \<noteq> images_dir \<and> \<not> path_exists s image_folder
           \<and> makedirs_error e image_folder \<noteq> None))"

definition persistence_fails :: "env \<Rightarrow> state \<Rightarrow> string \<Rightarrow> string \<Rightarrow> bool" where
  "persistence_fails e s timestamp_str image_url =
    (let images_dir = path_join (module_dir e) ''images'';
         image_folder = path_join images_dir timestamp_str
     in folder_creation_fails e s timestamp_str
      \<or> isl (requests_get e image_url)
      \<or> write_error e (path_join image_folder ''generated_image.png'') \<noteq> None
      \<or> write_error e (path_join image_folder ''metadata.json'') \<noteq> None)"

text \<open>
  What a call may do to the local storage: nothing is removed, and what is added is
  among the directories \<open>D\<close> and the files \<open>F\<close>.
\<close>

definition stores_only :: "string set \<Rightarrow> string set \<Rightarrow> state \<Rightarrow> state \<Rightarrow> bool" where
  "stores_only D F s s' =
    (dirs s \<subseteq> dirs s' \<and> dirs s' \<subseteq> dirs s \<union> D
     \<and> dom (files s) \<subseteq> dom (files s') \<and> dom (files s') \<subseteq> dom (files s) \<union> F)"

text \<open>
  A run of the server: the calls of one process in the order they are handled, each
  with the behaviour of the collaborators at that time.
\<close>

fun serve :: "(env \<times> request) list \<Rightarrow> state \<Rightarrow> state" where
  "serve [] s = s"
| "serve ((e, a) # rest) s = serve rest (snd (generate_image e a s))"

section \<open>Concrete collaborators and requests\<close>

text \<open>
  The end-to-end example of the specification: the request for a red fox, and a remote
  stub that answers one image created at 1700000000. The process runs in UTC on Linux
  with glibc. The one timestamp that the examples below have \<^verbatim>\<open>datetime\<close> refuse is the first
  second of the year 10000, for which it raises the \<^verbatim>\<open>ValueError\<close> given here.
\<close>

definition fox_request :: request where
  "fox_request = \<lparr>prompt = ''a red fox'', img_size = S1024x1024, quality = Standard,
                   n_images = 1, style = None, model = ''dalle3'', revise_prompt = True\<rparr>"

definition fox_image :: image where
  "fox_image = \<lparr>url = Some ''http://x/img.png'',
                 dumped = [(''revised_prompt'', PStr ''a red fox in a field''),
                           (''url'', PStr ''http://x/img.png'')]\<rparr>"

definition fox_reply :: reply where
  "fox_reply = \<lparr>created = 1700000000, data = [fox_image]\<rparr>"

definition fox_datetime :: datetime where
  "fox_datetime = \<lparr>year = 2023, month = 11, day = 14, hour = 22, minute = 13, second = 20\<rparr>"

definition stub_env :: env where
  "stub_env = \<lparr>images_generate = (\<lambda>params. Inr fox_reply),
                utc_offset = 0,
                fromtimestamp_error = (\<lambda>t. PyException ''ValueError'' ''year 10000 is out of range''),
                pads_year = False,
                module_dir = ''/srv/app'',
                requests_get = (\<lambda>u. Inr ''PNG''),
                makedirs_error = (\<lambda>p. None),
                write_error = (\<lambda>p. None)\<rparr>"

text \<open>The record the specification expects for the example, for a server installed in \<^verbatim>\<open>/srv/app\<close>.\<close>

definition fox_response :: pydict where
  "fox_response =
    [(''success'', PBool True),
     (''revised_prompt'', PStr ''a red fox in a field''),
     (''url'', PStr ''http://x/img.png''),
     (''model'', PStr ''dalle3''),
     (''size'', PStr ''1024x1024''),
     (''quality'', PStr ''standard''),
     (''style'', PNone),
     (''timestamp'', PInt 1700000000),
     (''local_image_path'', PStr ''/srv/app/images/20231114_221320/generated_image.png''),
     (''local_metadata_path'', PStr ''/srv/app/images/20231114_221320/metadata.json'')]"

definition empty_state :: state where
  "empty_state = \<lparr>generated_images = [], calls = [], dirs = {}, files = Map.empty\<rparr>"

text \<open>The remote client raises an exception that carries no message.\<close>

definition silent_failure_env :: env where
  "silent_failure_env = stub_env\<lparr>images_generate := (\<lambda>params. Inl (PyException ''Exception'' []))\<rparr>"

text \<open>The remote client raises an exception with a message.\<close>

definition quota_env :: env where
  "quota_env = stub_env\<lparr>images_generate := (\<lambda>params. Inl (PyException ''RateLimitError'' ''quota exceeded''))\<rparr>"

text \<open>The remote client answers without any image.\<close>

definition no_image_env :: env where
  "no_image_env = stub_env\<lparr>images_generate := (\<lambda>params. Inr \<lparr>created = 1700000000, data = []\<rparr>)\<rparr>"

text \<open>The storage is read-only: creating a directory and writing a file fail.\<close>

definition read_only_env :: env where
  "read_only_env =
     stub_env\<lparr>makedirs_error := (\<lambda>p. Some (PyException ''OSError'' ''Read-only file system'')),
               write_error := (\<lambda>p. Some (PyException ''OSError'' ''Read-only file system''))\<rparr>"

text \<open>The process runs one hour east of UTC.\<close>

definition cet_env :: env where
  "cet_env = stub_env\<lparr>utc_offset := 3600\<rparr>"



text \<open>The remote client answers an image created in the year 987, on a platform that does not pad the year.\<close>

definition year_987_reply :: reply where
  "year_987_reply = \<lparr>created = - 31000000000, data = [fox_image]\<rparr>"

definition year_987_env :: env where
  "year_987_env = stub_env\<lparr>images_generate := (\<lambda>params. Inr year_987_reply)\<rparr>"

text \<open>Requests that differ from the fox request in one argument.\<close>

definition eleven_request :: request where
  "eleven_request = fox_request\<lparr>n_images := 11\<rparr>"

definition literal_request :: request where
  "literal_request = fox_request\<lparr>revise_prompt := False\<rparr>"

definition vivid_request :: request where
  "vivid_request = fox_request\<lparr>style := Some Vivid\<rparr>"

section \<open>Properties of the building blocks\<close>


subsection \<open>Dictionaries\<close>

lemma dict_get_dict_set:
  "dict_get (dict_set d k v) k' = (if k' = k then Some v else dict_get d k')"
  by (induction d) (auto simp: dict_get_def)

subsection \<open>Sequencing\<close>

lemma and_then_Inl: "m s = (Inl err, s') \<Longrightarrow> and_then m f s = (Inl err, s')"
  by (simp add: and_then_def)

lemma and_then_Inr: "m s = (Inr x, s') \<Longrightarrow> and_then m f s = f x s'"
  by (simp add: and_then_def)

lemma and_then_cases:
  obtains (raised) err s' where "m s = (Inl err, s')" "and_then m f s = (Inl err, s')"
        | (returned) x s' where "m s = (Inr x, s')" "and_then m f s = f x s'"
proof (cases "m s")
  case (Pair r s')
  then show ?thesis
    by (cases r) (auto intro: raised returned simp: and_then_def)
qed

lemma payloads_append: "payloads (xs @ ys) = payloads xs @ payloads ys"
  by (induction xs rule: payloads.induct) simp_all

lemma no_remote_call_iff:
  "no_remote_call s s' \<longleftrightarrow> (\<exists>l. calls s' = calls s @ l \<and> payloads l = [])"
  unfolding no_remote_call_def
  by (metis append_eq_conv_conj append_take_drop_id)

lemma no_remote_call_refl: "no_remote_call s s"
  by (simp add: no_remote_call_def)

lemma no_remote_call_trans:
  assumes "no_remote_call s1 s2" "no_remote_call s2 s3"
  shows "no_remote_call s1 s3"
proof -
  from assms(1) obtain l1 where l1: "calls s2 = calls s1 @ l1" "payloads l1 = []"
    unfolding no_remote_call_iff by blast
  from assms(2) obtain l2 where l2: "calls s3 = calls s2 @ l2" "payloads l2 = []"
    unfolding no_remote_call_iff by blast
  have "calls s3 = calls s1 @ (l1 @ l2)" using l1 l2 by simp
  moreover have "payloads (l1 @ l2) = []" using l1 l2 by (simp add: payloads_append)
  ultimately show ?thesis unfolding no_remote_call_iff by blast
qed

lemma local_effects_only_refl: "local_effects_only s s"
  by (simp add: local_effects_only_def no_remote_call_refl)

lemma local_effects_only_trans:
  assumes "local_effects_only s1 s2" "local_effects_only s2 s3"
  shows "local_effects_only s1 s3"
  using assms unfolding local_effects_only_def by (metis no_remote_call_trans)

lemma and_then_local:
  assumes "\<And>s. local_effects_only s (snd (m s))"
      and "\<And>x s. local_effects_only s (snd (f x s))"
  shows "local_effects_only s (snd (and_then m f s))"
proof (cases rule: and_then_cases[of m s f])
  case (raised err s')
  then show ?thesis using assms(1)[of s] by simp
next
  case (returned x s')
  have "local_effects_only s s'" using assms(1)[of s] returned(1) by simp
  moreover have "local_effects_only s' (snd (f x s'))" by (rule assms(2))
  ultimately show ?thesis using returned(2) by (metis local_effects_only_trans)
qed

lemma makedirs_local: "local_effects_only s (snd (makedirs e p s))"
  by (simp add: makedirs_def local_effects_only_def no_remote_call_def split: option.splits)

lemma write_file_local: "local_effects_only s (snd (write_file e p c s))"
  by (simp add: write_file_def local_effects_only_def no_remote_call_def split: option.splits)

lemma http_get_local: "local_effects_only s (snd (http_get e u s))"
  by (simp add: http_get_def local_effects_only_def no_remote_call_def)

lemma return_local: "local_effects_only s (snd (return x s))"
  by (simp add: return_def local_effects_only_refl)

lemma lift_local: "local_effects_only s (snd (lift r s))"
  by (simp add: lift_def local_effects_only_refl)

lemma save_locally_local:
  "local_effects_only s (snd (save_locally e a response timestamp timestamp_str image_url s))"
  unfolding save_locally_def Let_def
  by (intro and_then_local makedirs_local write_file_local http_get_local return_local lift_local)
     (simp_all add: makedirs_local return_local)


lemma and_then_InrE:
  assumes "and_then m f s = (Inr y, s'')"
  obtains x s' where "m s = (Inr x, s')" "f x s' = (Inr y, s'')"
  using assms by (cases rule: and_then_cases[of m s f]) auto

lemma ensure_dir_Inr:
  assumes "(if c then makedirs e p s else return () s) = (Inr x, s')"
  shows "(c \<longrightarrow> makedirs_error e p = None) \<and> dirs s' = (if c then insert p (dirs s) else dirs s)
         \<and> files s' = files s"
  using assms by (auto simp: makedirs_def return_def split: if_splits option.splits)

lemma write_file_Inr:
  assumes "write_file e p c s = (Inr x, s')"
  shows "write_error e p = None \<and> dirs s' = dirs s \<and> files s' = (files s)(p \<mapsto> c)"
  using assms by (auto simp: write_file_def split: option.splits)

lemma http_get_Inr:
  assumes "http_get e u s = (Inr x, s')"
  shows "requests_get e u = Inr x \<and> dirs s' = dirs s \<and> files s' = files s"
  using assms by (auto simp: http_get_def)

lemma lift_Inr:
  assumes "lift r s = (Inr x, s')"
  shows "r = Inr x \<and> s' = s"
  using assms by (auto simp: lift_def)

lemma save_locally_Inr:
  assumes "save_locally e a response timestamp timestamp_str image_url s = (Inr r, s')"
  shows "\<not> persistence_fails e s timestamp_str image_url"
    and "r = dict_set (dict_set response ''local_image_path''
               (PStr (path_join (path_join (path_join (module_dir e) ''images'') timestamp_str) ''generated_image.png'')))
             ''local_metadata_path''
               (PStr (path_join (path_join (path_join (module_dir e) ''images'') timestamp_str) ''metadata.json''))"
    and "\<exists>revised. dict_get response ''revised_prompt'' = Some revised \<and>
           files s' (path_join (path_join (path_join (module_dir e) ''images'') timestamp_str) ''metadata.json'')
           = Some (JsonDocument (build_metadata a revised timestamp
                 (path_join (path_join (path_join (module_dir e) ''images'') timestamp_str) ''generated_image.png'')))"
    and "path_exists s' (path_join (path_join (module_dir e) ''images'') timestamp_str)"
proof -
  let ?images_dir = "path_join (module_dir e) ''images''"
  let ?image_folder = "path_join ?images_dir timestamp_str"
  from assms obtain s1 s2 s3 s4 s5 s6 generated_image revised where
    st1: "(if \<not> isdir s ?images_dir then makedirs e ?images_dir s else return () s) = (Inr (), s1)" and
    st2: "(if \<not> path_exists s1 ?image_folder then makedirs e ?image_folder s1 else return () s1) = (Inr (), s2)" and
    st3: "http_get e image_url s2 = (Inr generated_image, s3)" and
    st4: "write_file e (path_join ?image_folder ''generated_image.png'') (ImageBytes generated_image) s3 = (Inr (), s4)" and
    st5: "lift (dict_subscript response ''revised_prompt'') s4 = (Inr revised, s5)" and
    st6: "write_file e (path_join ?image_folder ''metadata.json'') (JsonDocument (build_metadata a revised timestamp (path_join ?image_folder ''generated_image.png''))) s5 = (Inr (), s6)" and
    st7: "return (dict_set (dict_set response ''local_image_path'' (PStr (path_join ?image_folder ''generated_image.png'')))
                      ''local_metadata_path'' (PStr (path_join ?image_folder ''metadata.json''))) s6 = (Inr r, s')"
    unfolding save_locally_def Let_def
    by (elim and_then_InrE) (metis old.unit.exhaust)
  note f1 = ensure_dir_Inr[OF st1] and f2 = ensure_dir_Inr[OF st2] and f3 = http_get_Inr[OF st3]
    and f4 = write_file_Inr[OF st4] and f5 = lift_Inr[OF st5] and f6 = write_file_Inr[OF st6]
  have f7: "s' = s6" and r: "r = dict_set (dict_set response ''local_image_path'' (PStr (path_join ?image_folder ''generated_image.png'')))
                      ''local_metadata_path'' (PStr (path_join ?image_folder ''metadata.json''))"
    using st7 by (auto simp: return_def)
  show "r = dict_set (dict_set response ''local_image_path'' (PStr (path_join ?image_folder ''generated_image.png'')))
                      ''local_metadata_path'' (PStr (path_join ?image_folder ''metadata.json''))"
    by (rule r)
  have ex1: "path_exists s1 ?image_folder \<longleftrightarrow> ?image_folder = ?images_dir \<or> path_exists s ?image_folder"
    using f1 by (auto simp: path_exists_def isdir_def)
  show "\<not> persistence_fails e s timestamp_str image_url"
    unfolding persistence_fails_def folder_creation_fails_def Let_def
    using f1 f2 f3 f4 f6 ex1 by auto
  have "dict_get response ''revised_prompt'' = Some revised"
    using f5 by (auto simp: dict_subscript_def dict_get_def split: option.splits)
  then show "\<exists>revised. dict_get response ''revised_prompt'' = Some revised \<and>
           files s' (path_join ?image_folder ''metadata.json'')
           = Some (JsonDocument (build_metadata a revised timestamp (path_join ?image_folder ''generated_image.png'')))"
    using f6 f7 by auto
  show "path_exists s' ?image_folder"
    using f1 f2 f3 f4 f5 f6 f7 by (auto simp: path_exists_def split: if_splits)
qed


lemma save_locally_succeeds:
  assumes ok: "\<not> persistence_fails e s timestamp_str image_url"
      and key: "dict_get response ''revised_prompt'' = Some revised"
  shows "\<exists>r s'. save_locally e a response timestamp timestamp_str image_url s = (Inr r, s')"
proof -
  let ?images_dir = "path_join (module_dir e) ''images''"
  let ?image_folder = "path_join ?images_dir timestamp_str"
  have n1: "isdir s ?images_dir \<or> makedirs_error e ?images_dir = None"
    and n2: "?image_folder = ?images_dir \<or> path_exists s ?image_folder \<or> makedirs_error e ?image_folder = None"
    and n3: "\<not> isl (requests_get e image_url)"
    and n4: "write_error e (path_join ?image_folder ''generated_image.png'') = None"
    and n6: "write_error e (path_join ?image_folder ''metadata.json'') = None"
    using ok unfolding persistence_fails_def folder_creation_fails_def Let_def by auto
  obtain s1 where st1: "(if \<not> isdir s ?images_dir then makedirs e ?images_dir s else return () s) = (Inr (), s1)"
    and d1: "?images_dir \<in> dirs s1" "dirs s \<subseteq> dirs s1" "files s1 = files s"
    using n1 by (cases "isdir s ?images_dir") (auto simp: makedirs_def return_def isdir_def)
  have "path_exists s1 ?image_folder \<or> makedirs_error e ?image_folder = None"
    using n2 d1 by (auto simp: path_exists_def)
  then obtain s2 where st2: "(if \<not> path_exists s1 ?image_folder then makedirs e ?image_folder s1 else return () s1) = (Inr (), s2)"
    by (cases "path_exists s1 ?image_folder") (auto simp: makedirs_def return_def)
  obtain generated_image where g: "requests_get e image_url = Inr generated_image"
    using n3 by (cases "requests_get e image_url") auto
  have sub: "dict_subscript response ''revised_prompt'' = Inr revised"
    using key by (simp add: dict_subscript_def dict_get_def)
  show ?thesis
    unfolding save_locally_def Let_def and_then_def
    by (simp add: st1 st2 http_get_def g write_file_def n4 n6 lift_def sub return_def)
qed

lemma save_locally_fails:
  assumes "persistence_fails e s timestamp_str image_url"
  shows "\<exists>err s'. save_locally e a response timestamp timestamp_str image_url s = (Inl err, s')"
proof (cases "save_locally e a response timestamp timestamp_str image_url s")
  case (Pair r s')
  then show ?thesis using assms save_locally_Inr(1)[of e a response timestamp timestamp_str image_url s _ s']
    by (cases r) auto
qed

lemma persistence_fails_calls [simp]:
  "persistence_fails e (s\<lparr>calls := c\<rparr>) timestamp_str image_url = persistence_fails e s timestamp_str image_url"
  by (simp add: persistence_fails_def folder_creation_fails_def isdir_def path_exists_def)


subsection \<open>The guarded persistence\<close>

lemma save_if_url_no_url:
  "u = None \<or> u = Some [] \<Longrightarrow> save_if_url e a response ts tstr u s = (Inr response, s)"
  by (auto simp: save_if_url_def)

lemma save_if_url_fails:
  assumes "x \<noteq> []" "persistence_fails e s tstr x"
  shows "\<exists>s'. save_if_url e a response ts tstr (Some x) s = (Inr response, s')"
proof -
  from save_locally_fails[OF assms(2)] obtain err s' where
    "save_locally e a response ts tstr x s = (Inl err, s')" by blast
  then show ?thesis using assms(1) by (simp add: save_if_url_def)
qed

lemma save_if_url_succeeds:
  assumes "x \<noteq> []" "\<not> persistence_fails e s tstr x"
      and "dict_get response ''revised_prompt'' = Some revised"
  shows "\<exists>s'. save_if_url e a response ts tstr (Some x) s =
           (Inr (dict_set (dict_set response ''local_image_path''
               (PStr (path_join (path_join (path_join (module_dir e) ''images'') tstr) ''generated_image.png'')))
             ''local_metadata_path''
               (PStr (path_join (path_join (path_join (module_dir e) ''images'') tstr) ''metadata.json''))), s')
         \<and> files s' (path_join (path_join (path_join (module_dir e) ''images'') tstr) ''metadata.json'')
           = Some (JsonDocument (build_metadata a revised ts
                 (path_join (path_join (path_join (module_dir e) ''images'') tstr) ''generated_image.png'')))
         \<and> path_exists s' (path_join (path_join (module_dir e) ''images'') tstr)"
proof -
  from save_locally_succeeds[OF assms(2,3)] obtain r s' where
    sl: "save_locally e a response ts tstr x s = (Inr r, s')" by blast
  note facts = save_locally_Inr[OF sl]
  have "save_if_url e a response ts tstr (Some x) s = (Inr r, s')"
    using sl assms(1) by (simp add: save_if_url_def)
  then show ?thesis using facts(2,3,4) assms(3) by auto
qed

lemma save_if_url_returns:
  "\<exists>r s'. save_if_url e a response ts tstr u s = (Inr r, s')"
proof (cases u)
  case None
  then show ?thesis by (simp add: save_if_url_def)
next
  case (Some x)
  obtain q s' where "save_locally e a response ts tstr x s = (q, s')" by (cases "save_locally e a response ts tstr x s")
  then show ?thesis using Some by (cases q) (auto simp: save_if_url_def)
qed

lemma save_if_url_local:
  "local_effects_only s (snd (save_if_url e a response ts tstr u s))"
proof (cases u)
  case None
  then show ?thesis by (simp add: save_if_url_def local_effects_only_refl)
next
  case (Some x)
  obtain q s' where sl: "save_locally e a response ts tstr x s = (q, s')" by (cases "save_locally e a response ts tstr x s")
  have "local_effects_only s s'" using save_locally_local[of s e a response ts tstr x] sl by simp
  then show ?thesis using Some sl by (cases q) (auto simp: save_if_url_def local_effects_only_refl)
qed

lemma save_if_url_keeps:
  assumes "save_if_url e a response ts tstr u s = (Inr r, s')"
      and "k \<noteq> ''local_image_path''" "k \<noteq> ''local_metadata_path''"
  shows "dict_get r k = dict_get response k"
proof (cases u)
  case None
  then show ?thesis using assms(1) by (simp add: save_if_url_def)
next
  case (Some x)
  obtain q s1 where sl: "save_locally e a response ts tstr x s = (q, s1)" by (cases "save_locally e a response ts tstr x s")
  show ?thesis
  proof (cases q)
    case (Inl err)
    then show ?thesis using Some sl assms(1) by (auto simp: save_if_url_def split: if_splits)
  next
    case (Inr r1)
    then have "r = response \<or> r = r1" using Some sl assms(1) by (auto simp: save_if_url_def split: if_splits)
    moreover have "dict_get r1 k = dict_get response k"
      using save_locally_Inr(2)[OF sl[unfolded Inr]] assms(2,3) by (simp add: dict_get_dict_set)
    ultimately show ?thesis by auto
  qed
qed

subsection \<open>The reply\<close>

lemma handle_reply_bad_timestamp:
  "fromtimestamp e (created result) = Inl err \<Longrightarrow> handle_reply e a result s = (Inl err, s)"
  by (simp add: handle_reply_def and_then_def lift_def)

lemma handle_reply_no_image:
  "fromtimestamp e (created result) = Inr dt \<Longrightarrow> data result = [] \<Longrightarrow>
   handle_reply e a result s = (Inl (PyException ''IndexError'' ''list index out of range''), s)"
  by (simp add: handle_reply_def and_then_def lift_def first_item_def)

lemma handle_reply_image:
  "fromtimestamp e (created result) = Inr dt \<Longrightarrow> data result = img # rest \<Longrightarrow>
   save_if_url e a (build_response a result img) (created result) (strftime (pads_year e) dt) (url img) s = (Inr response, s2) \<Longrightarrow>
   handle_reply e a result s = (Inr response, s2\<lparr>generated_images := generated_images s2 @ [response]\<rparr>)"
  by (simp add: handle_reply_def and_then_def lift_def first_item_def append_history_def return_def)

lemma handle_reply_cases:
  obtains (bad_timestamp) err where "fromtimestamp e (created result) = Inl err"
            "handle_reply e a result s = (Inl err, s)"
  | (no_image) dt where "fromtimestamp e (created result) = Inr dt" "data result = []"
            "handle_reply e a result s = (Inl (PyException ''IndexError'' ''list index out of range''), s)"
  | (image) dt img rest response s2 where "fromtimestamp e (created result) = Inr dt"
            "data result = img # rest"
            "save_if_url e a (build_response a result img) (created result) (strftime (pads_year e) dt) (url img) s = (Inr response, s2)"
            "handle_reply e a result s = (Inr response, s2\<lparr>generated_images := generated_images s2 @ [response]\<rparr>)"
proof (cases "fromtimestamp e (created result)")
  case (Inl err)
  then show ?thesis using bad_timestamp handle_reply_bad_timestamp by blast
next
  case (Inr dt)
  show ?thesis
  proof (cases "data result")
    case Nil
    then show ?thesis using no_image Inr handle_reply_no_image by blast
  next
    case (Cons img rest)
    obtain response s2 where
      "save_if_url e a (build_response a result img) (created result) (strftime (pads_year e) dt) (url img) s = (Inr response, s2)"
      using save_if_url_returns by blast
    then show ?thesis using image Inr Cons handle_reply_image by blast
  qed
qed


subsection \<open>The handler, path by path\<close>

lemma generate_image_invalid:
  assumes "\<not> valid_arguments a"
  shows "\<exists>msg. generate_image e a s = (Inl (PyException ''ValueError'' msg), s)"
  using assms by (auto simp: generate_image_def valid_arguments_def)

lemma generate_image_valid:
  assumes "valid_arguments a"
  shows "generate_image e a s =
    (case try_generate e a (build_params a) s of
       (Inl err, s') \<Rightarrow> (Inr [(''success'', PBool False), (''error'', PStr (exc_str err))], s')
     | (Inr response, s') \<Rightarrow> (Inr response, s'))"
  using assms by (auto simp: generate_image_def valid_arguments_def)

lemma try_generate_remote_error:
  assumes "images_generate e params = Inl err"
  shows "try_generate e a params s = (Inl err, s\<lparr>calls := calls s @ [ImagesGenerate params]\<rparr>)"
  using assms by (simp add: try_generate_def and_then_def client_images_generate_def)

lemma try_generate_reply:
  assumes "images_generate e params = Inr result"
  shows "try_generate e a params s = handle_reply e a result (s\<lparr>calls := calls s @ [ImagesGenerate params]\<rparr>)"
  using assms by (simp add: try_generate_def and_then_def client_images_generate_def)

lemma generate_image_cases:
  assumes "valid_arguments a"
  obtains (remote_error) err where
      "images_generate e (build_params a) = Inl err"
      "generate_image e a s = (Inr [(''success'', PBool False), (''error'', PStr (exc_str err))],
         s\<lparr>calls := calls s @ [ImagesGenerate (build_params a)]\<rparr>)"
  | (bad_timestamp) result err where
      "images_generate e (build_params a) = Inr result"
      "fromtimestamp e (created result) = Inl err"
      "generate_image e a s = (Inr [(''success'', PBool False), (''error'', PStr (exc_str err))],
         s\<lparr>calls := calls s @ [ImagesGenerate (build_params a)]\<rparr>)"
  | (no_image) result dt where
      "images_generate e (build_params a) = Inr result"
      "fromtimestamp e (created result) = Inr dt"
      "data result = []"
      "generate_image e a s = (Inr [(''success'', PBool False), (''error'', PStr ''list index out of range'')],
         s\<lparr>calls := calls s @ [ImagesGenerate (build_params a)]\<rparr>)"
  | (image) result dt img rest response s2 where
      "images_generate e (build_params a) = Inr result"
      "fromtimestamp e (created result) = Inr dt"
      "data result = img # rest"
      "save_if_url e a (build_response a result img) (created result) (strftime (pads_year e) dt) (url img)
         (s\<lparr>calls := calls s @ [ImagesGenerate (build_params a)]\<rparr>) = (Inr response, s2)"
      "generate_image e a s = (Inr response, s2\<lparr>generated_images := generated_images s2 @ [response]\<rparr>)"
proof (cases "images_generate e (build_params a)")
  case (Inl err)
  then show ?thesis
    using remote_error generate_image_valid[OF assms, of e s] try_generate_remote_error[of e "build_params a" err a s]
    by simp
next
  case (Inr result)
  let ?s1 = "s\<lparr>calls := calls s @ [ImagesGenerate (build_params a)]\<rparr>"
  have tg: "try_generate e a (build_params a) s = handle_reply e a result ?s1"
    by (rule try_generate_reply[OF Inr])
  show ?thesis
  proof (cases rule: handle_reply_cases[of e result a ?s1])
    case (bad_timestamp err)
    then show ?thesis
      using that(2)[OF Inr, of err] generate_image_valid[OF assms, of e s] tg by simp
  next
    case (no_image dt)
    then show ?thesis
      using that(3)[OF Inr, of dt] generate_image_valid[OF assms, of e s] tg by simp
  next
    case (image dt img rest response s2)
    then show ?thesis
      using that(4)[OF Inr, of dt img rest response s2] generate_image_valid[OF assms, of e s] tg by simp
  qed
qed

lemma build_response_success:
  "dict_get (build_response a result img) ''success'' = Some (PBool True)"
  by (simp add: build_response_def dict_get_def)

lemma sent_to_client_first:
  assumes "no_remote_call (s\<lparr>calls := calls s @ [ImagesGenerate p]\<rparr>) s'"
  shows "sent_to_client s s' = [p]"
proof -
  from assms obtain l where "calls s' = (calls s @ [ImagesGenerate p]) @ l" "payloads l = []"
    unfolding no_remote_call_iff by auto
  then show ?thesis by (simp add: sent_to_client_def)
qed

lemma no_remote_call_history [simp]:
  "no_remote_call s (s'\<lparr>generated_images := h\<rparr>) = no_remote_call s s'"
  by (simp add: no_remote_call_def)

lemma generate_image_sent:
  "sent_to_client s (snd (generate_image e a s)) = (if valid_arguments a then [build_params a] else [])"
proof (cases "valid_arguments a")
  case False
  then show ?thesis using generate_image_invalid[OF False, of e s] by (auto simp: sent_to_client_def)
next
  case True
  let ?s1 = "s\<lparr>calls := calls s @ [ImagesGenerate (build_params a)]\<rparr>"
  from True have "no_remote_call ?s1 (snd (generate_image e a s))"
  proof (cases rule: generate_image_cases[where e = e and s = s])
    case (image result dt img rest response s2)
    have "local_effects_only ?s1 s2"
      using save_if_url_local[of ?s1 e a "build_response a result img" "created result" "strftime (pads_year e) dt" "url img"] image(4)
      by simp
    then show ?thesis using image(5) by (simp add: local_effects_only_def)
  qed (simp_all add: no_remote_call_refl)
  then show ?thesis using True by (simp add: sent_to_client_first)
qed

lemma generate_image_history:
  "generated_images (snd (generate_image e a s)) =
    (case fst (generate_image e a s) of
       Inl err \<Rightarrow> generated_images s
     | Inr response \<Rightarrow>
         if dict_get response ''success'' = Some (PBool True) then generated_images s @ [response]
         else generated_images s)"
proof (cases "valid_arguments a")
  case False
  then show ?thesis using generate_image_invalid[OF False, of e s] by auto
next
  case True
  let ?s1 = "s\<lparr>calls := calls s @ [ImagesGenerate (build_params a)]\<rparr>"
  from True show ?thesis
  proof (cases rule: generate_image_cases[where e = e and s = s])
    case (image result dt img rest response s2)
    have "local_effects_only ?s1 s2"
      using save_if_url_local[of ?s1 e a "build_response a result img" "created result" "strftime (pads_year e) dt" "url img"] image(4)
      by simp
    then have h: "generated_images s2 = generated_images s" by (simp add: local_effects_only_def)
    have "dict_get response ''success'' = Some (PBool True)"
      using save_if_url_keeps[OF image(4), of "''success''"] by (simp add: build_response_success)
    then show ?thesis using image(5) h by simp
  qed (simp_all add: dict_get_def)
qed


subsection \<open>The concrete requests\<close>

lemma fox_request_valid: "valid_arguments fox_request"
  by (simp add: valid_arguments_def fox_request_def)

lemma literal_request_valid: "valid_arguments literal_request"
  by (simp add: valid_arguments_def literal_request_def fox_request_def)

lemma vivid_request_valid: "valid_arguments vivid_request"
  by (simp add: valid_arguments_def vivid_request_def fox_request_def)

lemma fox_params:
  "build_params fox_request =
    [(''model'', PStr ''dalle3''), (''prompt'', PStr ''a red fox''), (''n'', PInt 1),
     (''size'', PStr ''1024x1024''), (''quality'', PStr ''standard'')]"
  by (simp add: build_params_def modified_prompt_def fox_request_def)

subsection \<open>Concrete renderings and the two outcomes of the persistence\<close>


lemma fox_localtime:
  "localtime 0 1700000000 = fox_datetime"
  "localtime 0 1699913600 = fox_datetime\<lparr>day := 13\<rparr>"
  "localtime 3600 1700000000 = fox_datetime\<lparr>hour := 23\<rparr>"
  "localtime 3600 1699913600 = fox_datetime\<lparr>day := 13, hour := 23\<rparr>"
  by code_simp+

lemma utc_timestamp:
  assumes "utc_offset e = 0"
  shows "fromtimestamp e 1700000000 = Inr fox_datetime"
  using assms by (simp add: fromtimestamp_def fox_localtime) (simp add: fox_datetime_def)

lemma fox_timestamp: "fromtimestamp stub_env 1700000000 = Inr fox_datetime"
  by (rule utc_timestamp) (simp add: stub_env_def)

lemma cet_timestamp: "fromtimestamp cet_env 1700000000 = Inr (fox_datetime\<lparr>hour := 23\<rparr>)"
proof -
  have "utc_offset cet_env = 3600" by (simp add: cet_env_def)
  then show ?thesis by (simp add: fromtimestamp_def fox_localtime) (simp add: fox_datetime_def)
qed

lemma decimal_2023: "decimal 2023 = ''2023''"
  by code_simp

lemma fox_folder: "strftime pads fox_datetime = ''20231114_221320''"
  by (simp add: strftime_def year_field_def pad2_def pad4_def digit_def fox_datetime_def decimal_2023)

lemma cet_folder: "strftime pads (fox_datetime\<lparr>hour := 23\<rparr>) = ''20231114_231320''"
  by (simp add: strftime_def year_field_def pad2_def pad4_def digit_def fox_datetime_def decimal_2023)

lemma stub_paths:
  "path_join (module_dir stub_env) ''images'' = ''/srv/app/images''"
  "path_join ''/srv/app/images'' ''20231114_221320'' = ''/srv/app/images/20231114_221320''"
  "path_join ''/srv/app/images/20231114_221320'' ''generated_image.png''
     = ''/srv/app/images/20231114_221320/generated_image.png''"
  "path_join ''/srv/app/images/20231114_221320'' ''metadata.json''
     = ''/srv/app/images/20231114_221320/metadata.json''"
  by (simp_all add: path_join_def stub_env_def)

lemma stub_persists:
  "\<not> persistence_fails stub_env s ''20231114_221320'' ''http://x/img.png''"
  by (simp add: persistence_fails_def folder_creation_fails_def Let_def stub_env_def)

lemma read_only_fails:
  "persistence_fails read_only_env s ''20231114_221320'' ''http://x/img.png''"
  by (simp add: persistence_fails_def folder_creation_fails_def Let_def read_only_env_def stub_env_def)


lemma build_response_revised:
  "dict_get (build_response a result img) ''revised_prompt''
     = Some (dict_get_default (dumped img) ''revised_prompt'' (PStr (prompt a)))"
  by (simp add: build_response_def dict_get_def)

lemma generate_image_persisted:
  assumes "valid_arguments a"
      and "images_generate e (build_params a) = Inr result"
      and "fromtimestamp e (created result) = Inr dt"
      and "data result = img # rest"
      and "url img = Some u" "u \<noteq> []"
      and "\<not> persistence_fails e s (strftime (pads_year e) dt) u"
  shows "\<exists>s'. generate_image e a s =
           (Inr (dict_set (dict_set (build_response a result img) ''local_image_path''
               (PStr (path_join (path_join (path_join (module_dir e) ''images'') (strftime (pads_year e) dt)) ''generated_image.png'')))
             ''local_metadata_path''
               (PStr (path_join (path_join (path_join (module_dir e) ''images'') (strftime (pads_year e) dt)) ''metadata.json''))), s')
         \<and> files s' (path_join (path_join (path_join (module_dir e) ''images'') (strftime (pads_year e) dt)) ''metadata.json'')
           = Some (JsonDocument (build_metadata a
                 (dict_get_default (dumped img) ''revised_prompt'' (PStr (prompt a))) (created result)
                 (path_join (path_join (path_join (module_dir e) ''images'') (strftime (pads_year e) dt)) ''generated_image.png'')))
         \<and> path_exists s' (path_join (path_join (module_dir e) ''images'') (strftime (pads_year e) dt))"
proof -
  let ?s1 = "s\<lparr>calls := calls s @ [ImagesGenerate (build_params a)]\<rparr>"
  have ok: "\<not> persistence_fails e ?s1 (strftime (pads_year e) dt) u" using assms(7) by simp
  from save_if_url_succeeds[OF assms(6) ok build_response_revised, where a = a and ts = "created result"]
  obtain s2 where
    su: "save_if_url e a (build_response a result img) (created result) (strftime (pads_year e) dt) (Some u) ?s1 =
           (Inr (dict_set (dict_set (build_response a result img) ''local_image_path''
               (PStr (path_join (path_join (path_join (module_dir e) ''images'') (strftime (pads_year e) dt)) ''generated_image.png'')))
             ''local_metadata_path''
               (PStr (path_join (path_join (path_join (module_dir e) ''images'') (strftime (pads_year e) dt)) ''metadata.json''))), s2)"
    and fl: "files s2 (path_join (path_join (path_join (module_dir e) ''images'') (strftime (pads_year e) dt)) ''metadata.json'')
           = Some (JsonDocument (build_metadata a
                 (dict_get_default (dumped img) ''revised_prompt'' (PStr (prompt a))) (created result)
                 (path_join (path_join (path_join (module_dir e) ''images'') (strftime (pads_year e) dt)) ''generated_image.png'')))"
    and ex: "path_exists s2 (path_join (path_join (module_dir e) ''images'') (strftime (pads_year e) dt))"
    by blast
  have hr: "handle_reply e a result ?s1 = (Inr (dict_set (dict_set (build_response a result img) ''local_image_path''
               (PStr (path_join (path_join (path_join (module_dir e) ''images'') (strftime (pads_year e) dt)) ''generated_image.png'')))
             ''local_metadata_path''
               (PStr (path_join (path_join (path_join (module_dir e) ''images'') (strftime (pads_year e) dt)) ''metadata.json''))),
            s2\<lparr>generated_images := generated_images s2 @ [dict_set (dict_set (build_response a result img) ''local_image_path''
               (PStr (path_join (path_join (path_join (module_dir e) ''images'') (strftime (pads_year e) dt)) ''generated_image.png'')))
             ''local_metadata_path''
               (PStr (path_join (path_join (path_join (module_dir e) ''images'') (strftime (pads_year e) dt)) ''metadata.json''))]\<rparr>)"
    using handle_reply_image[OF assms(3,4), of a ?s1] su assms(5) by simp
  show ?thesis
    using generate_image_valid[OF assms(1), of e s] try_generate_reply[OF assms(2), of a s] hr fl ex
    by (simp add: path_exists_def)
qed

lemma generate_image_not_persisted:
  assumes "valid_arguments a"
      and "images_generate e (build_params a) = Inr result"
      and "fromtimestamp e (created result) = Inr dt"
      and "data result = img # rest"
      and "url img = Some u" "u \<noteq> []"
      and "persistence_fails e s (strftime (pads_year e) dt) u"
  shows "\<exists>s'. generate_image e a s = (Inr (build_response a result img), s')"
proof -
  let ?s1 = "s\<lparr>calls := calls s @ [ImagesGenerate (build_params a)]\<rparr>"
  have bad: "persistence_fails e ?s1 (strftime (pads_year e) dt) u" using assms(7) by simp
  from save_if_url_fails[OF assms(6) bad, of a "build_response a result img" "created result"]
  obtain s2 where
    su: "save_if_url e a (build_response a result img) (created result) (strftime (pads_year e) dt) (Some u) ?s1 =
           (Inr (build_response a result img), s2)"
    by blast
  have hr: "handle_reply e a result ?s1 = (Inr (build_response a result img),
            s2\<lparr>generated_images := generated_images s2 @ [build_response a result img]\<rparr>)"
    using handle_reply_image[OF assms(3,4), of a ?s1] su assms(5) by simp
  show ?thesis
    using generate_image_valid[OF assms(1), of e s] try_generate_reply[OF assms(2), of a s] hr
    by simp
qed

section \<open>The claims\<close>

text \<open>
  C1. A call whose \<^verbatim>\<open>n\<close> is outside 1 to 10, or whose \<^verbatim>\<open>model\<close> is neither \<^verbatim>\<open>dalle3\<close> nor
  \<^verbatim>\<open>dalle2\<close>, raises a \<^verbatim>\<open>ValueError\<close> to the caller instead of returning a record, and
  leaves the whole state as it was: no network call is logged and the history is
  unchanged.
\<close>

theorem generate_image_rejects_bad_arguments:
  assumes "n_images a < 1 \<or> 10 < n_images a \<or> model a \<notin> {''dalle3'', ''dalle2''}"
  shows "(\<exists>msg. fst (generate_image e a s) = Inl (PyException ''ValueError'' msg))
         \<and> snd (generate_image e a s) = s
         \<and> sent_to_client s (snd (generate_image e a s)) = []"
proof -
  have "\<not> valid_arguments a" using assms by (auto simp: valid_arguments_def)
  from generate_image_invalid[OF this, of e s] obtain msg where
    "generate_image e a s = (Inl (PyException ''ValueError'' msg), s)" by blast
  then show ?thesis by (simp add: sent_to_client_def)
qed

theorem generate_image_rejects_bad_arguments_witness:
  "10 < n_images eleven_request
   \<and> fst (generate_image stub_env eleven_request empty_state)
       = Inl (PyException ''ValueError'' ''Number of images (n) must be between 1 and 10'')
   \<and> snd (generate_image stub_env eleven_request empty_state) = empty_state"
proof -
  have h: "10 < n_images eleven_request" by (simp add: eleven_request_def fox_request_def)
  then have "n_images eleven_request < 1 \<or> 10 < n_images eleven_request
             \<or> model eleven_request \<notin> {''dalle3'', ''dalle2''}" by simp
  from generate_image_rejects_bad_arguments[OF this, of stub_env empty_state]
  have "snd (generate_image stub_env eleven_request empty_state) = empty_state" by simp
  moreover have "fst (generate_image stub_env eleven_request empty_state)
       = Inl (PyException ''ValueError'' ''Number of images (n) must be between 1 and 10'')"
    using h by (simp add: generate_image_def)
  ultimately show ?thesis using h by simp
qed

text \<open>
  C2, as amended. When the remote image client raises, the handler returns (it does not
  raise) the record with \<^verbatim>\<open>success\<close> false whose \<^verbatim>\<open>error\<close> field is the text \<^verbatim>\<open>str(e)\<close> of
  the exception, whatever that text is.
\<close>

theorem remote_error_becomes_failure_record:
  assumes "valid_arguments a"
      and "images_generate e (build_params a) = Inl err"
  shows "fst (generate_image e a s) = Inr [(''success'', PBool False), (''error'', PStr (exc_str err))]"
  using assms(2) generate_image_valid[OF assms(1), of e s]
    try_generate_remote_error[OF assms(2), of a s]
  by simp

theorem remote_error_becomes_failure_record_witness:
  "valid_arguments fox_request
   \<and> images_generate quota_env (build_params fox_request) = Inl (PyException ''RateLimitError'' ''quota exceeded'')
   \<and> fst (generate_image quota_env fox_request empty_state)
       = Inr [(''success'', PBool False), (''error'', PStr ''quota exceeded'')]"
proof -
  have h: "images_generate quota_env (build_params fox_request) = Inl (PyException ''RateLimitError'' ''quota exceeded'')"
    by (simp add: quota_env_def stub_env_def)
  from remote_error_becomes_failure_record[OF fox_request_valid h, of empty_state]
  show ?thesis using h fox_request_valid by simp
qed

text \<open>
  C2 as stated fails: an exception without a message has the empty text, and the
  \<^verbatim>\<open>error\<close> field of the record is then the empty string.
\<close>

theorem remote_error_text_can_be_empty:
  "images_generate silent_failure_env (build_params fox_request) = Inl (PyException ''Exception'' [])
   \<and> fst (generate_image silent_failure_env fox_request empty_state)
       = Inr [(''success'', PBool False), (''error'', PStr [])]"
proof -
  have h: "images_generate silent_failure_env (build_params fox_request) = Inl (PyException ''Exception'' [])"
    by (simp add: silent_failure_env_def stub_env_def)
  show ?thesis
    using h generate_image_valid[OF fox_request_valid, of silent_failure_env empty_state]
      try_generate_remote_error[OF h, of fox_request empty_state]
    by simp
qed

text \<open>
  C5. With \<^verbatim>\<open>revise_prompt\<close> false, the call sends one payload to the remote client when its
  arguments pass the check (and none otherwise), and the \<^verbatim>\<open>prompt\<close> of that payload is the
  caller's prompt followed by one copy of \<^verbatim>\<open>" do not modify my prompt"\<close>.
\<close>

theorem literal_prompt_gets_suffix:
  assumes "\<not> revise_prompt a"
  shows "sent_to_client s (snd (generate_image e a s)) = (if valid_arguments a then [build_params a] else [])
         \<and> dict_get (build_params a) ''prompt'' = Some (PStr (prompt a @ '' do not modify my prompt''))"
proof -
  have "dict_get (build_params a) ''prompt'' = Some (PStr (modified_prompt a))"
    by (cases "style a") (simp_all add: build_params_def dict_get_def)
  then show ?thesis using assms by (simp add: generate_image_sent modified_prompt_def)
qed

theorem literal_prompt_gets_suffix_witness:
  "\<not> revise_prompt literal_request
   \<and> sent_to_client empty_state (snd (generate_image stub_env literal_request empty_state))
       = [build_params literal_request]
   \<and> dict_get (build_params literal_request) ''prompt'' = Some (PStr ''a red fox do not modify my prompt'')"
proof -
  have h: "\<not> revise_prompt literal_request" by (simp add: literal_request_def)
  from literal_prompt_gets_suffix[OF h, of empty_state stub_env]
  show ?thesis using h literal_request_valid by (simp add: literal_request_def fox_request_def)
qed

text \<open>
  C10. With \<^verbatim>\<open>revise_prompt\<close> true, the \<^verbatim>\<open>prompt\<close> of the payload sent to the remote client is the
  caller's prompt, unchanged.
\<close>

theorem revisable_prompt_is_sent_unchanged:
  assumes "revise_prompt a"
  shows "sent_to_client s (snd (generate_image e a s)) = (if valid_arguments a then [build_params a] else [])
         \<and> dict_get (build_params a) ''prompt'' = Some (PStr (prompt a))"
proof -
  have "dict_get (build_params a) ''prompt'' = Some (PStr (modified_prompt a))"
    by (cases "style a") (simp_all add: build_params_def dict_get_def)
  then show ?thesis using assms by (simp add: generate_image_sent modified_prompt_def)
qed

theorem revisable_prompt_is_sent_unchanged_witness:
  "revise_prompt fox_request
   \<and> sent_to_client empty_state (snd (generate_image stub_env fox_request empty_state))
       = [build_params fox_request]
   \<and> dict_get (build_params fox_request) ''prompt'' = Some (PStr ''a red fox'')"
proof -
  have h: "revise_prompt fox_request" by (simp add: fox_request_def)
  from revisable_prompt_is_sent_unchanged[OF h, of empty_state stub_env]
  show ?thesis using h fox_request_valid by (simp add: fox_request_def)
qed

text \<open>
  C6. The payload sent to the remote client has no \<^verbatim>\<open>style\<close> key when the caller gives no
  style, and has the caller's style under that key when the caller gives one.
\<close>

theorem style_key_follows_the_caller:
  "sent_to_client s (snd (generate_image e a s)) = (if valid_arguments a then [build_params a] else [])
   \<and> dict_get (build_params a) ''style'' = map_option (\<lambda>st. PStr (style_str st)) (style a)
   \<and> (style a = None \<longleftrightarrow> ''style'' \<notin> fst ` set (build_params a))"
proof -
  have "dict_get (build_params a) ''style'' = map_option (\<lambda>st. PStr (style_str st)) (style a)"
    by (cases "style a") (simp_all add: build_params_def dict_get_def)
  moreover have "style a = None \<longleftrightarrow> ''style'' \<notin> fst ` set (build_params a)"
    by (cases "style a") (simp_all add: build_params_def)
  ultimately show ?thesis by (simp add: generate_image_sent)
qed

theorem style_key_follows_the_caller_witness:
  "sent_to_client empty_state (snd (generate_image stub_env vivid_request empty_state))
       = [build_params vivid_request]
   \<and> dict_get (build_params vivid_request) ''style'' = Some (PStr ''vivid'')
   \<and> dict_get (build_params fox_request) ''style'' = None"
proof -
  from style_key_follows_the_caller[of empty_state stub_env vivid_request]
    style_key_follows_the_caller[of empty_state stub_env fox_request]
  show ?thesis using vivid_request_valid by (simp add: vivid_request_def fox_request_def)
qed

lemma fox_response_built:
  "dict_set (dict_set (build_response fox_request fox_reply fox_image) ''local_image_path''
       (PStr ''/srv/app/images/20231114_221320/generated_image.png''))
     ''local_metadata_path'' (PStr ''/srv/app/images/20231114_221320/metadata.json'')
   = fox_response"
  by (simp add: build_response_def fox_response_def fox_request_def fox_reply_def fox_image_def
      dict_get_default_def of_optional_str_def style_value_def)

lemma fox_reply_facts:
  "images_generate stub_env p = Inr fox_reply"
  "fromtimestamp stub_env (created fox_reply) = Inr fox_datetime"
  "data fox_reply = fox_image # []"
  "url fox_image = Some ''http://x/img.png''"
proof -
  show "images_generate stub_env p = Inr fox_reply" by (simp add: stub_env_def)
  show "fromtimestamp stub_env (created fox_reply) = Inr fox_datetime"
    by (simp add: fox_reply_def fox_timestamp)
  show "data fox_reply = fox_image # []" by (simp add: fox_reply_def)
  show "url fox_image = Some ''http://x/img.png''" by (simp add: fox_image_def)
qed

lemma fox_run: "fst (generate_image stub_env fox_request empty_state) = Inr fox_response"
proof -
  have ok: "\<not> persistence_fails stub_env empty_state (strftime (pads_year stub_env) fox_datetime) ''http://x/img.png''"
    by (simp add: fox_folder stub_persists)
  from generate_image_persisted[OF fox_request_valid fox_reply_facts(1,2,3,4) _ ok]
  show ?thesis by (auto simp: fox_folder stub_paths fox_response_built)
qed

lemma serve_history_prefix:
  "prefix (generated_images s) (generated_images (serve run s))"
proof (induction run arbitrary: s)
  case Nil
  then show ?case by simp
next
  case (Cons c run)
  obtain e a where c: "c = (e, a)" by (cases c)
  have "prefix (generated_images s) (generated_images (snd (generate_image e a s)))"
    by (simp add: generate_image_history split: sum.splits)
  moreover have "prefix (generated_images (snd (generate_image e a s)))
                   (generated_images (serve run (snd (generate_image e a s))))"
    by (rule Cons.IH)
  ultimately show ?case using c by (auto intro: prefix_order.trans)
qed

text \<open>
  C9, as amended. A record that the handler returns with \<^verbatim>\<open>success\<close> true is appended to the
  history as its last entry. A record with \<^verbatim>\<open>success\<close> false, and a call that raises, leave
  the history as it was. Over any run of calls the history only grows at its end: the
  entries it had are still there, unchanged and in the same order.
\<close>

theorem history_grows_by_successes_only:
  "generated_images (snd (generate_image e a s)) =
     (case fst (generate_image e a s) of
        Inl err \<Rightarrow> generated_images s
      | Inr response \<Rightarrow>
          if dict_get response ''success'' = Some (PBool True) then generated_images s @ [response]
          else generated_images s)
   \<and> prefix (generated_images s) (generated_images (serve run s))"
  by (simp add: generate_image_history serve_history_prefix)

text \<open>
  C9 as stated fails: the record of a failed remote call is returned to the caller but
  is not in the history afterwards.
\<close>

theorem failure_record_is_not_appended:
  "fst (generate_image quota_env fox_request empty_state)
       = Inr [(''success'', PBool False), (''error'', PStr ''quota exceeded'')]
   \<and> generated_images (snd (generate_image quota_env fox_request empty_state)) = []"
proof -
  have h: "images_generate quota_env (build_params fox_request) = Inl (PyException ''RateLimitError'' ''quota exceeded'')"
    by (simp add: quota_env_def stub_env_def)
  show ?thesis
    using h generate_image_valid[OF fox_request_valid, of quota_env empty_state]
      try_generate_remote_error[OF h, of fox_request empty_state]
    by (simp add: empty_state_def)
qed


theorem history_grows_by_successes_only_witness:
  "fst (generate_image stub_env fox_request empty_state) = Inr fox_response
   \<and> generated_images (snd (generate_image stub_env fox_request empty_state)) = [fox_response]
   \<and> prefix (generated_images empty_state) (generated_images (serve [(stub_env, fox_request)] empty_state))"
proof -
  have ok: "dict_get fox_response ''success'' = Some (PBool True)"
    by (simp add: fox_response_def dict_get_def)
  have h0: "generated_images empty_state = []" by (simp add: empty_state_def)
  from history_grows_by_successes_only[of stub_env fox_request empty_state "[(stub_env, fox_request)]"]
  show ?thesis by (simp add: fox_run ok h0)
qed

lemma hms_hour: "((x::int) mod 86400) div 3600 = x div 3600 mod 24"
proof -
  have "x mod (3600 * 24) = 3600 * (x div 3600 mod 24) + x mod 3600"
    by (rule zmod_zmult2_eq) simp
  then have "(x mod 86400) div 3600 = (3600 * (x div 3600 mod 24) + x mod 3600) div 3600" by simp
  also have "\<dots> = x div 3600 mod 24" by simp
  finally show ?thesis .
qed

lemma hms_second: "((x::int) mod 86400) mod 60 = x mod 60"
  by (rule mod_mod_cancel) simp

lemma hms_minute: "(((x::int) mod 86400) mod 3600) div 60 = x div 60 mod 60"
proof -
  have a: "(x mod 86400) mod 3600 = x mod 3600" by (rule mod_mod_cancel) simp
  have "x mod (60 * 60) = 60 * (x div 60 mod 60) + x mod 60"
    by (rule zmod_zmult2_eq) simp
  then have "(x mod 3600) div 60 = (60 * (x div 60 mod 60) + x mod 60) div 60" by simp
  also have "\<dots> = x div 60 mod 60" by simp
  finally show ?thesis using a by simp
qed


lemma localtime_fields:
  "(year (localtime off ts), month (localtime off ts), day (localtime off ts))
     = ord2ymd ((ts + off) div 86400 + 719163)"
  "hour (localtime off ts) = ((ts + off) mod 86400) div 3600"
  "minute (localtime off ts) = (((ts + off) mod 86400) mod 3600) div 60"
  "second (localtime off ts) = ((ts + off) mod 86400) mod 60"
  by (simp_all add: localtime_def Let_def split: prod.splits)

lemma fromtimestamp_Inr:
  assumes "fromtimestamp e ts = Inr dt"
  shows "dt = localtime (utc_offset e) ts"
    and "1 \<le> year dt \<and> year dt \<le> 9999"
  using assms by (auto simp: fromtimestamp_def Let_def split: if_splits)

lemma build_response_fields:
  "dict_get (build_response a result img) ''url'' = Some (of_optional_str (url img))"
  "dict_get (build_response a result img) ''model'' = Some (PStr (model a))"
  "dict_get (build_response a result img) ''size'' = Some (PStr (size_str (img_size a)))"
  "dict_get (build_response a result img) ''quality'' = Some (PStr (quality_str (quality a)))"
  "dict_get (build_response a result img) ''style'' = Some (style_value a)"
  "dict_get (build_response a result img) ''timestamp'' = Some (PInt (created result))"
  "dict_get (build_response a result img) ''local_image_path'' = None"
  "dict_get (build_response a result img) ''local_metadata_path'' = None"
  by (simp_all add: build_response_def dict_get_def)

lemma build_metadata_fields:
  "dict_get (build_metadata a revised timestamp image_path) ''prompt'' = Some (PStr (prompt a))"
  "dict_get (build_metadata a revised timestamp image_path) ''revised_prompt'' = Some revised"
  "dict_get (build_metadata a revised timestamp image_path) ''model'' = Some (PStr (model a))"
  "dict_get (build_metadata a revised timestamp image_path) ''size'' = Some (PStr (size_str (img_size a)))"
  "dict_get (build_metadata a revised timestamp image_path) ''quality'' = Some (PStr (quality_str (quality a)))"
  "dict_get (build_metadata a revised timestamp image_path) ''style'' = Some (style_value a)"
  "dict_get (build_metadata a revised timestamp image_path) ''timestamp'' = Some (PInt timestamp)"
  "dict_get (build_metadata a revised timestamp image_path) ''image_path'' = Some (PStr image_path)"
  by (simp_all add: build_metadata_def dict_get_def)

text \<open>
  C7. The remote call has answered with an image that has a URL, and no step of the
  local persistence fails. Then the returned record has \<^verbatim>\<open>local_image_path\<close> and
  \<^verbatim>\<open>local_metadata_path\<close>, and the document read back from the file at
  \<^verbatim>\<open>local_metadata_path\<close> holds the caller's prompt and the same revised prompt, model,
  size, quality, style and timestamp as the record (and the image path).
\<close>

theorem metadata_file_reproduces_record:
  assumes "valid_arguments a"
      and "images_generate e (build_params a) = Inr result"
      and "fromtimestamp e (created result) = Inr dt"
      and "data result = img # rest"
      and "url img = Some u" "u \<noteq> []"
      and "\<not> persistence_fails e s (strftime (pads_year e) dt) u"
  shows "\<exists>response s' image_path metadata_path metadata.
           generate_image e a s = (Inr response, s')
         \<and> dict_get response ''success'' = Some (PBool True)
         \<and> dict_get response ''local_image_path'' = Some (PStr image_path)
         \<and> dict_get response ''local_metadata_path'' = Some (PStr metadata_path)
         \<and> json_load s' metadata_path = Some metadata
         \<and> dict_get metadata ''prompt'' = Some (PStr (prompt a))
         \<and> dict_get metadata ''revised_prompt'' = dict_get response ''revised_prompt''
         \<and> dict_get metadata ''model'' = dict_get response ''model''
         \<and> dict_get metadata ''size'' = dict_get response ''size''
         \<and> dict_get metadata ''quality'' = dict_get response ''quality''
         \<and> dict_get metadata ''style'' = dict_get response ''style''
         \<and> dict_get metadata ''timestamp'' = dict_get response ''timestamp''
         \<and> dict_get metadata ''image_path'' = Some (PStr image_path)
         \<and> dict_get response ''revised_prompt''
               = Some (dict_get_default (dumped img) ''revised_prompt'' (PStr (prompt a)))
         \<and> dict_get response ''model'' = Some (PStr (model a))
         \<and> dict_get response ''size'' = Some (PStr (size_str (img_size a)))
         \<and> dict_get response ''quality'' = Some (PStr (quality_str (quality a)))
         \<and> dict_get response ''style'' = Some (style_value a)
         \<and> dict_get response ''timestamp'' = Some (PInt (created result))"
proof -
  let ?folder = "path_join (path_join (module_dir e) ''images'') (strftime (pads_year e) dt)"
  let ?ip = "path_join ?folder ''generated_image.png''"
  let ?mp = "path_join ?folder ''metadata.json''"
  let ?response = "dict_set (dict_set (build_response a result img) ''local_image_path'' (PStr ?ip))
                     ''local_metadata_path'' (PStr ?mp)"
  let ?metadata = "build_metadata a (dict_get_default (dumped img) ''revised_prompt'' (PStr (prompt a)))
                     (created result) ?ip"
  from generate_image_persisted[OF assms] obtain s' where
    g: "generate_image e a s = (Inr ?response, s')"
    and f: "files s' ?mp = Some (JsonDocument ?metadata)" by blast
  have j: "json_load s' ?mp = Some ?metadata" using f by (simp add: json_load_def)
  have r: "dict_get ?response ''success'' = Some (PBool True)"
      "dict_get ?response ''local_image_path'' = Some (PStr ?ip)"
      "dict_get ?response ''local_metadata_path'' = Some (PStr ?mp)"
      "dict_get ?response ''revised_prompt''
         = Some (dict_get_default (dumped img) ''revised_prompt'' (PStr (prompt a)))"
      "dict_get ?response ''model'' = Some (PStr (model a))"
      "dict_get ?response ''size'' = Some (PStr (size_str (img_size a)))"
      "dict_get ?response ''quality'' = Some (PStr (quality_str (quality a)))"
      "dict_get ?response ''style'' = Some (style_value a)"
      "dict_get ?response ''timestamp'' = Some (PInt (created result))"
    by (simp_all add: dict_get_dict_set build_response_success build_response_revised
        build_response_fields)
  show ?thesis
    apply (rule exI[of _ ?response], rule exI[of _ s'], rule exI[of _ ?ip], rule exI[of _ ?mp],
        rule exI[of _ ?metadata])
    using g j by (simp only: r build_metadata_fields simp_thms)
qed


theorem metadata_file_reproduces_record_witness:
  "\<not> persistence_fails stub_env empty_state (strftime (pads_year stub_env) fox_datetime) ''http://x/img.png''
   \<and> (\<exists>response s' image_path metadata_path metadata.
           generate_image stub_env fox_request empty_state = (Inr response, s')
         \<and> dict_get response ''local_image_path'' = Some (PStr image_path)
         \<and> dict_get response ''local_metadata_path'' = Some (PStr metadata_path)
         \<and> json_load s' metadata_path = Some metadata
         \<and> dict_get metadata ''prompt'' = Some (PStr ''a red fox'')
         \<and> dict_get metadata ''revised_prompt'' = dict_get response ''revised_prompt''
         \<and> dict_get metadata ''model'' = dict_get response ''model''
         \<and> dict_get metadata ''size'' = dict_get response ''size''
         \<and> dict_get metadata ''quality'' = dict_get response ''quality''
         \<and> dict_get metadata ''style'' = dict_get response ''style''
         \<and> dict_get metadata ''timestamp'' = dict_get response ''timestamp''
         \<and> dict_get response ''timestamp'' = Some (PInt 1700000000))"
proof -
  have ok: "\<not> persistence_fails stub_env empty_state (strftime (pads_year stub_env) fox_datetime) ''http://x/img.png''"
    by (simp add: fox_folder stub_persists)
  have h6: "''http://x/img.png'' \<noteq> []" by simp
  have p: "prompt fox_request = ''a red fox''" "created fox_reply = 1700000000"
    by (simp_all add: fox_request_def fox_reply_def)
  from metadata_file_reproduces_record[OF fox_request_valid fox_reply_facts(1,2,3,4) h6 ok]
  obtain response s' image_path metadata_path metadata where
    "generate_image stub_env fox_request empty_state = (Inr response, s')"
    "dict_get response ''local_image_path'' = Some (PStr image_path)"
    "dict_get response ''local_metadata_path'' = Some (PStr metadata_path)"
    "json_load s' metadata_path = Some metadata"
    "dict_get metadata ''prompt'' = Some (PStr ''a red fox'')"
    "dict_get metadata ''revised_prompt'' = dict_get response ''revised_prompt''"
    "dict_get metadata ''model'' = dict_get response ''model''"
    "dict_get metadata ''size'' = dict_get response ''size''"
    "dict_get metadata ''quality'' = dict_get response ''quality''"
    "dict_get metadata ''style'' = dict_get response ''style''"
    "dict_get metadata ''timestamp'' = dict_get response ''timestamp''"
    "dict_get response ''timestamp'' = Some (PInt 1700000000)"
    unfolding p by blast
  then show ?thesis using ok by blast
qed

text \<open>
  C4 fails on the code at a reply without images: line 139 indexes the empty list before
  the guard of line 140 is reached, the \<^verbatim>\<open>IndexError\<close> is caught by the outer handler, and
  the caller gets a record with \<^verbatim>\<open>success\<close> false.
\<close>

theorem empty_reply_is_reported_as_failure:
  "images_generate no_image_env (build_params fox_request) = Inr \<lparr>created = 1700000000, data = []\<rparr>
   \<and> fst (generate_image no_image_env fox_request empty_state)
       = Inr [(''success'', PBool False), (''error'', PStr ''list index out of range'')]"
proof -
  let ?reply = "\<lparr>created = 1700000000, data = []\<rparr> :: reply"
  have h: "images_generate no_image_env (build_params fox_request) = Inr ?reply"
    by (simp add: no_image_env_def stub_env_def)
  have "utc_offset no_image_env = 0" by (simp add: no_image_env_def stub_env_def)
  then have t: "fromtimestamp no_image_env (created ?reply) = Inr fox_datetime"
    by (simp add: utc_timestamp)
  have "handle_reply no_image_env fox_request ?reply s
          = (Inl (PyException ''IndexError'' ''list index out of range''), s)" for s
    by (rule handle_reply_no_image[OF t]) simp
  then show ?thesis
    using h generate_image_valid[OF fox_request_valid, of no_image_env empty_state]
      try_generate_reply[OF h, of fox_request empty_state]
    by simp
qed

subsection \<open>What the persistence leaves in the storage\<close>

lemma stores_only_refl: "stores_only D F s s"
  by (auto simp: stores_only_def)

lemma stores_only_trans:
  assumes "stores_only D F s1 s2" "stores_only D F s2 s3"
  shows "stores_only D F s1 s3"
  using assms unfolding stores_only_def by blast

lemma stores_only_exists:
  assumes "stores_only D F s s'" "path_exists s p"
  shows "path_exists s' p"
  using assms unfolding stores_only_def path_exists_def by blast

lemma and_then_stores:
  assumes "\<And>s. stores_only D F s (snd (m s))"
      and "\<And>x s. stores_only D F s (snd (f x s))"
  shows "stores_only D F s (snd (and_then m f s))"
proof (cases rule: and_then_cases[of m s f])
  case (raised err s')
  then show ?thesis using assms(1)[of s] by simp
next
  case (returned x s')
  have "stores_only D F s s'" using assms(1)[of s] returned(1) by simp
  moreover have "stores_only D F s' (snd (f x s'))" by (rule assms(2))
  ultimately show ?thesis using returned(2) by (metis stores_only_trans)
qed

lemma makedirs_stores: "p \<in> D \<Longrightarrow> stores_only D F s (snd (makedirs e p s))"
  by (auto simp: makedirs_def stores_only_def split: option.splits)

lemma write_file_stores: "p \<in> F \<Longrightarrow> stores_only D F s (snd (write_file e p c s))"
  by (auto simp: write_file_def stores_only_def split: option.splits)

lemma http_get_stores: "stores_only D F s (snd (http_get e u s))"
  by (simp add: http_get_def stores_only_def)

lemma return_stores: "stores_only D F s (snd (return x s))"
  by (simp add: return_def stores_only_refl)

lemma lift_stores: "stores_only D F s (snd (lift r s))"
  by (simp add: lift_def stores_only_refl)

lemma ensure_stores:
  "p \<in> D \<Longrightarrow> stores_only D F s (snd (if c then makedirs e p s else return () s))"
  by (simp add: makedirs_stores return_stores)

lemma save_locally_stores:
  "stores_only
     {path_join (module_dir e) ''images'',
      path_join (path_join (module_dir e) ''images'') timestamp_str}
     {path_join (path_join (path_join (module_dir e) ''images'') timestamp_str) ''generated_image.png'',
      path_join (path_join (path_join (module_dir e) ''images'') timestamp_str) ''metadata.json''}
     s (snd (save_locally e a response timestamp timestamp_str image_url s))"
  unfolding save_locally_def Let_def
  by (intro and_then_stores ensure_stores write_file_stores http_get_stores return_stores lift_stores)
     simp_all

lemma and_then_snd:
  assumes "\<And>err s'. m s = (Inl err, s') \<Longrightarrow> P s'"
      and "\<And>x s'. m s = (Inr x, s') \<Longrightarrow> P (snd (f x s'))"
  shows "P (snd (and_then m f s))"
  by (cases rule: and_then_cases[of m s f]) (simp_all add: assms)

lemma save_locally_folder_exists:
  assumes nf: "\<not> folder_creation_fails e s timestamp_str"
  shows "path_exists (snd (save_locally e a response timestamp timestamp_str image_url s))
           (path_join (path_join (module_dir e) ''images'') timestamp_str)"
  unfolding save_locally_def Let_def
  apply (rule and_then_snd[where P = "\<lambda>s. path_exists s (path_join (path_join (module_dir e) ''images'') timestamp_str)"])
  subgoal for err s'
    using nf
    by (auto simp: makedirs_def return_def folder_creation_fails_def Let_def split: if_splits option.splits)
  subgoal premises st1 for x s1
    apply (rule and_then_snd[where P = "\<lambda>s. path_exists s (path_join (path_join (module_dir e) ''images'') timestamp_str)"])
    subgoal for err s'
      using nf st1
      by (auto simp: makedirs_def return_def folder_creation_fails_def Let_def path_exists_def isdir_def
          split: if_splits option.splits)
    subgoal premises st2 for y s2
      apply (rule stores_only_exists[where s = s2 and D = "{}" and F = "{path_join (path_join (path_join (module_dir e) ''images'') timestamp_str) ''generated_image.png'',
      path_join (path_join (path_join (module_dir e) ''images'') timestamp_str) ''metadata.json''}"])
      subgoal
        by (intro and_then_stores write_file_stores http_get_stores return_stores lift_stores) simp_all
      subgoal
        using st2
        by (auto simp: makedirs_def return_def path_exists_def split: if_splits option.splits)
      done
    done
  done

subsection \<open>The shape of a rendered timestamp\<close>

lemma month_and_day_walk:
  assumes "0 \<le> n" "n < sum_list lens" "\<forall>l \<in> set lens. l \<le> 31"
  shows "m \<le> fst (month_and_day lens m n) \<and> fst (month_and_day lens m n) < m + int (length lens)
         \<and> 1 \<le> snd (month_and_day lens m n) \<and> snd (month_and_day lens m n) \<le> 31"
  using assms
proof (induction lens arbitrary: m n)
  case Nil
  then show ?case by simp
next
  case (Cons len rest)
  show ?case
  proof (cases "n < len")
    case True
    then show ?thesis using Cons.prems by simp
  next
    case False
    have "0 \<le> n - len" "n - len < sum_list rest" "\<forall>l \<in> set rest. l \<le> 31"
      using False Cons.prems by simp_all
    from Cons.IH[OF this, of "m + 1"] show ?thesis using False by simp
  qed
qed

lemma month_and_day_range:
  assumes "0 \<le> n" "n < 365"
  shows "valid_month_day (month_and_day (month_lengths leapyear) 1 n)"
proof -
  have "n < sum_list (month_lengths leapyear)" "\<forall>l \<in> set (month_lengths leapyear). l \<le> 31"
    using assms(2) by (simp_all add: month_lengths_def)
  from month_and_day_walk[OF assms(1) this, of 1] show ?thesis
    by (simp add: valid_month_day_def month_lengths_def)
qed

lemma ord2ymd_range: "valid_month_day (snd (ord2ymd ordinal))"
  by (simp add: ord2ymd_def Let_def month_and_day_range) (simp add: valid_month_day_def)

lemma localtime_ranges:
  "1 \<le> month (localtime off ts) \<and> month (localtime off ts) \<le> 12"
  "1 \<le> day (localtime off ts) \<and> day (localtime off ts) \<le> 31"
  "0 \<le> hour (localtime off ts) \<and> hour (localtime off ts) \<le> 23"
  "0 \<le> minute (localtime off ts) \<and> minute (localtime off ts) \<le> 59"
  "0 \<le> second (localtime off ts) \<and> second (localtime off ts) \<le> 59"
proof -
  have "valid_month_day (snd (ord2ymd ((ts + off) div 86400 + 719163)))" by (rule ord2ymd_range)
  then have "valid_month_day (month (localtime off ts), day (localtime off ts))"
    using localtime_fields(1)[of off ts] by (metis snd_conv)
  then show "1 \<le> month (localtime off ts) \<and> month (localtime off ts) \<le> 12"
    "1 \<le> day (localtime off ts) \<and> day (localtime off ts) \<le> 31"
    by (simp_all add: valid_month_day_def)
  show "0 \<le> hour (localtime off ts) \<and> hour (localtime off ts) \<le> 23"
    unfolding localtime_fields(2) hms_hour by simp
  show "0 \<le> minute (localtime off ts) \<and> minute (localtime off ts) \<le> 59"
    unfolding localtime_fields(3) hms_minute by simp
  show "0 \<le> second (localtime off ts) \<and> second (localtime off ts) \<le> 59"
    unfolding localtime_fields(4) hms_second by simp
qed

lemma digit_is_digit:
  assumes "0 \<le> k" "k \<le> 9"
  shows "is_digit (digit k)"
proof -
  have "nat k < length ''0123456789''" using assms by simp
  then show ?thesis unfolding is_digit_def digit_def by (rule nth_mem)
qed

lemma digit_mod10: "is_digit (digit (k mod 10))"
  by (rule digit_is_digit) simp_all

lemma pad2_digits:
  assumes "0 \<le> k" "k \<le> 99"
  shows "list_all is_digit (pad2 k)"
proof -
  have "k div 10 \<le> 99 div 10" using assms(2) by (rule zdiv_mono1) simp
  then have "k div 10 \<le> 9" by simp
  moreover have "0 \<le> k div 10" using assms(1) by simp
  ultimately have "is_digit (digit (k div 10))" by (rule digit_is_digit[rotated])
  then show ?thesis by (simp only: pad2_def list.pred_inject digit_mod10 simp_thms)
qed

lemma pad4_digits:
  assumes "0 \<le> k" "k \<le> 9999"
  shows "list_all is_digit (pad4 k)"
proof -
  have "k div 1000 \<le> 9999 div 1000" using assms(2) by (rule zdiv_mono1) simp
  then have "k div 1000 \<le> 9" by simp
  moreover have "0 \<le> k div 1000" using assms(1) by simp
  ultimately have "is_digit (digit (k div 1000))" by (rule digit_is_digit[rotated])
  then show ?thesis by (simp only: pad4_def list.pred_inject digit_mod10 simp_thms)
qed

lemma decimal_four_digits:
  assumes "1000 \<le> k" "k \<le> 9999"
  shows "decimal k = [digit (int (k div 1000)), digit (int (k div 100 mod 10)),
                      digit (int (k div 10 mod 10)), digit (int (k mod 10))]"
proof -
  have "1000 div 10 \<le> k div 10" using assms(1) by (rule div_le_mono)
  then have a: "\<not> k div 10 < 10" by simp
  have "1000 div 100 \<le> k div 100" using assms(1) by (rule div_le_mono)
  then have b: "\<not> k div 100 < 10" by simp
  have "k div 1000 \<le> 9999 div 1000" using assms(2) by (rule div_le_mono)
  then have c: "k div 1000 < 10" by simp
  have k: "\<not> k < 10" using assms(1) by simp
  have d2: "k div 10 div 10 = k div 100" and d3: "k div 100 div 10 = k div 1000"
    by (simp_all add: div_mult2_eq[symmetric])
  have "decimal k = decimal (k div 10) @ [digit (int (k mod 10))]"
    using k by (subst decimal.simps) simp
  also have "decimal (k div 10) = decimal (k div 100) @ [digit (int (k div 10 mod 10))]"
    using a d2 by (subst decimal.simps) simp
  also have "decimal (k div 100) = decimal (k div 1000) @ [digit (int (k div 100 mod 10))]"
    using b d3 by (subst decimal.simps) simp
  also have "decimal (k div 1000) = [digit (int (k div 1000))]"
    using c by (subst decimal.simps) simp
  finally show ?thesis by simp
qed

lemma year_field_four_digits:
  assumes "1 \<le> y" "y \<le> 9999" "pads \<or> 1000 \<le> y"
  shows "year_field pads y = pad4 y"
proof (cases pads)
  case True
  then show ?thesis by (simp add: year_field_def)
next
  case False
  then have "1000 \<le> nat y" "nat y \<le> 9999" using assms by simp_all
  from decimal_four_digits[OF this] show ?thesis
    using False assms(1) by (simp add: year_field_def pad4_def zdiv_int zmod_int)
qed

lemma strftime_shape:
  assumes "fromtimestamp e ts = Inr dt" "pads \<or> 1000 \<le> year dt"
  shows "length (strftime pads dt) = 15" "list_all is_digit (take 8 (strftime pads dt))"
    "strftime pads dt ! 8 = CHR ''_''" "list_all is_digit (drop 9 (strftime pads dt))"
proof -
  note f = fromtimestamp_Inr[OF assms(1)]
  note r = localtime_ranges[of "utc_offset e" ts, folded f(1)]
  have yf: "year_field pads (year dt) = pad4 (year dt)"
    using f(2) assms(2) by (simp add: year_field_four_digits)
  have y: "list_all is_digit (pad4 (year dt))" using f(2) by (simp add: pad4_digits)
  have m: "list_all is_digit (pad2 (month dt))" using r(1) by (simp add: pad2_digits)
  have d: "list_all is_digit (pad2 (day dt))" using r(2) by (simp add: pad2_digits)
  have h: "list_all is_digit (pad2 (hour dt))" using r(3) by (simp add: pad2_digits)
  have mi: "list_all is_digit (pad2 (minute dt))" using r(4) by (simp add: pad2_digits)
  have s: "list_all is_digit (pad2 (second dt))" using r(5) by (simp add: pad2_digits)
  have l4: "length (pad4 k) = 4" and l2: "length (pad2 k) = 2" for k
    by (simp_all add: pad4_def pad2_def)
  show "length (strftime pads dt) = 15" by (simp add: strftime_def yf l4 l2)
  have front: "take 8 (strftime pads dt) = pad4 (year dt) @ pad2 (month dt) @ pad2 (day dt)"
    by (simp add: strftime_def yf l4 l2)
  show "list_all is_digit (take 8 (strftime pads dt))" unfolding front using y m d by simp
  have rear: "drop 9 (strftime pads dt) = pad2 (hour dt) @ pad2 (minute dt) @ pad2 (second dt)"
    by (simp add: strftime_def yf l4 l2)
  show "list_all is_digit (drop 9 (strftime pads dt))" unfolding rear using h mi s by simp
  show "strftime pads dt ! 8 = CHR ''_''" by (simp add: strftime_def yf nth_append l4 l2)
qed

subsection \<open>Persistence after a rendered timestamp\<close>

text \<open>
  Once the folder name has been computed, a failure of any later step of the local
  persistence is kept inside: the record has \<^verbatim>\<open>success\<close> true, lacks both local paths and
  is the entry appended to the history.
\<close>

lemma persistence_failure_kept_inside:
  assumes "valid_arguments a"
      and "images_generate e (build_params a) = Inr result"
      and "fromtimestamp e (created result) = Inr dt"
      and "data result = img # rest"
      and "url img = Some u" "u \<noteq> []"
      and "persistence_fails e s (strftime (pads_year e) dt) u"
  shows "\<exists>response s'. generate_image e a s = (Inr response, s')
         \<and> dict_get response ''success'' = Some (PBool True)
         \<and> dict_get response ''url'' = Some (PStr u)
         \<and> dict_get response ''local_image_path'' = None
         \<and> dict_get response ''local_metadata_path'' = None
         \<and> generated_images s' = generated_images s @ [response]"
proof -
  from generate_image_not_persisted[OF assms] obtain s' where
    g: "generate_image e a s = (Inr (build_response a result img), s')" by blast
  have "generated_images s' = generated_images s @ [build_response a result img]"
    using generate_image_history[of e a s] g by (simp add: build_response_success)
  then show ?thesis
    using g assms(5) by (simp add: build_response_success build_response_fields of_optional_str_def)
qed




subsection \<open>From a returned record back to the run\<close>

lemma folder_creation_fails_calls [simp]:
  "folder_creation_fails e (s\<lparr>calls := c\<rparr>) timestamp_str = folder_creation_fails e s timestamp_str"
  by (simp add: folder_creation_fails_def isdir_def path_exists_def)

lemma stores_only_bookkeeping:
  "stores_only D F (s\<lparr>calls := c\<rparr>) s2 \<Longrightarrow> stores_only D F s (s2\<lparr>generated_images := g\<rparr>)"
  by (simp add: stores_only_def)

lemma save_if_url_outcome:
  assumes "save_if_url e a response ts tstr (Some u) s = (Inr r, s2)" and "u \<noteq> []"
  shows "stores_only
           {path_join (module_dir e) ''images'', path_join (path_join (module_dir e) ''images'') tstr}
           {path_join (path_join (path_join (module_dir e) ''images'') tstr) ''generated_image.png'',
            path_join (path_join (path_join (module_dir e) ''images'') tstr) ''metadata.json''}
           s s2"
    and "folder_creation_fails e s tstr \<or> path_exists s2 (path_join (path_join (module_dir e) ''images'') tstr)"
    and "r = response
         \<or> r = dict_set (dict_set response ''local_image_path''
                 (PStr (path_join (path_join (path_join (module_dir e) ''images'') tstr) ''generated_image.png'')))
               ''local_metadata_path''
                 (PStr (path_join (path_join (path_join (module_dir e) ''images'') tstr) ''metadata.json''))
           \<and> path_exists s2 (path_join (path_join (module_dir e) ''images'') tstr)"
proof -
  obtain q s1 where sl: "save_locally e a response ts tstr u s = (q, s1)"
    by (cases "save_locally e a response ts tstr u s")
  have s2: "s2 = snd (save_locally e a response ts tstr u s)"
    using assms sl by (cases q) (auto simp: save_if_url_def)
  show "stores_only
           {path_join (module_dir e) ''images'', path_join (path_join (module_dir e) ''images'') tstr}
           {path_join (path_join (path_join (module_dir e) ''images'') tstr) ''generated_image.png'',
            path_join (path_join (path_join (module_dir e) ''images'') tstr) ''metadata.json''}
           s s2"
    unfolding s2 by (rule save_locally_stores)
  show "folder_creation_fails e s tstr \<or> path_exists s2 (path_join (path_join (module_dir e) ''images'') tstr)"
    unfolding s2 using save_locally_folder_exists[of e s tstr a response ts u] by blast
  show "r = response
         \<or> r = dict_set (dict_set response ''local_image_path''
                 (PStr (path_join (path_join (path_join (module_dir e) ''images'') tstr) ''generated_image.png'')))
               ''local_metadata_path''
                 (PStr (path_join (path_join (path_join (module_dir e) ''images'') tstr) ''metadata.json''))
           \<and> path_exists s2 (path_join (path_join (module_dir e) ''images'') tstr)"
  proof (cases q)
    case (Inl err)
    then show ?thesis using assms sl by (auto simp: save_if_url_def)
  next
    case (Inr r1)
    then have "r = r1" "s2 = s1" using assms sl by (auto simp: save_if_url_def)
    then show ?thesis using save_locally_Inr(2,4)[OF sl[unfolded Inr]] by simp
  qed
qed

lemma generate_image_success:
  assumes "generate_image e a s = (Inr response, s')"
      and "dict_get response ''success'' = Some (PBool True)"
  obtains result dt img rest s2 where
      "valid_arguments a"
      "images_generate e (build_params a) = Inr result"
      "fromtimestamp e (created result) = Inr dt"
      "data result = img # rest"
      "save_if_url e a (build_response a result img) (created result) (strftime (pads_year e) dt) (url img)
         (s\<lparr>calls := calls s @ [ImagesGenerate (build_params a)]\<rparr>) = (Inr response, s2)"
      "s' = s2\<lparr>generated_images := generated_images s2 @ [response]\<rparr>"
proof (cases "valid_arguments a")
  case False
  from generate_image_invalid[OF False, of e s] show ?thesis using assms(1) by auto
next
  case True
  from True show ?thesis
  proof (cases rule: generate_image_cases[where e = e and s = s])
    case (remote_error err)
    then show ?thesis using assms by (auto simp: dict_get_def)
  next
    case (bad_timestamp result err)
    then show ?thesis using assms by (auto simp: dict_get_def)
  next
    case (no_image result dt)
    then show ?thesis using assms by (auto simp: dict_get_def)
  next
    case (image result dt img rest r s2)
    then have "r = response" "s' = s2\<lparr>generated_images := generated_images s2 @ [r]\<rparr>"
      using assms(1) by simp_all
    then show ?thesis using that[OF True image(1,2,3)] image(4) by blast
  qed
qed

lemma of_optional_str_PStr: "of_optional_str x = PStr u \<Longrightarrow> x = Some u"
  by (cases x) (simp_all add: of_optional_str_def)

lemma path_exists_bookkeeping [simp]:
  "path_exists (s\<lparr>generated_images := g\<rparr>) p = path_exists s p"
  by (simp add: path_exists_def)

subsection \<open>The years 987 and 2023, and the zone one hour east\<close>

lemma year_987_localtime:
  "localtime 0 (- 31000000000) = \<lparr>year = 987, month = 8, day = 25, hour = 16, minute = 53, second = 20\<rparr>"
  "localtime 0 (- 31000086400) = \<lparr>year = 987, month = 8, day = 24, hour = 16, minute = 53, second = 20\<rparr>"
  by code_simp+

lemma decimal_987: "decimal 987 = ''987''"
  by code_simp

lemma year_987_reply_facts:
  "images_generate year_987_env p = Inr year_987_reply"
  "fromtimestamp year_987_env (created year_987_reply)
     = Inr \<lparr>year = 987, month = 8, day = 25, hour = 16, minute = 53, second = 20\<rparr>"
  "data year_987_reply = [fox_image]"
  "pads_year year_987_env = False"
proof -
  show "images_generate year_987_env p = Inr year_987_reply" by (simp add: year_987_env_def)
  have "utc_offset year_987_env = 0" by (simp add: year_987_env_def stub_env_def)
  then show "fromtimestamp year_987_env (created year_987_reply)
     = Inr \<lparr>year = 987, month = 8, day = 25, hour = 16, minute = 53, second = 20\<rparr>"
    by (simp add: fromtimestamp_def year_987_reply_def year_987_localtime)
  show "data year_987_reply = [fox_image]" by (simp add: year_987_reply_def)
  show "pads_year year_987_env = False" by (simp add: year_987_env_def stub_env_def)
qed

lemma year_987_folder:
  "strftime False \<lparr>year = 987, month = 8, day = 25, hour = 16, minute = 53, second = 20\<rparr> = ''9870825_165320''"
  by (simp add: strftime_def year_field_def pad2_def digit_def decimal_987)

lemma year_987_paths:
  "path_join (module_dir year_987_env) ''images'' = ''/srv/app/images''"
  "path_join ''/srv/app/images'' ''9870825_165320'' = ''/srv/app/images/9870825_165320''"
  "path_join ''/srv/app/images/9870825_165320'' ''generated_image.png''
     = ''/srv/app/images/9870825_165320/generated_image.png''"
  "path_join ''/srv/app/images/9870825_165320'' ''metadata.json''
     = ''/srv/app/images/9870825_165320/metadata.json''"
  by (simp_all add: path_join_def year_987_env_def stub_env_def)

lemma year_987_persists:
  "\<not> persistence_fails year_987_env s ''9870825_165320'' ''http://x/img.png''"
  by (simp add: persistence_fails_def folder_creation_fails_def Let_def year_987_env_def stub_env_def)

lemma cet_reply_facts:
  "images_generate cet_env p = Inr fox_reply"
  "fromtimestamp cet_env (created fox_reply) = Inr (fox_datetime\<lparr>hour := 23\<rparr>)"
proof -
  show "images_generate cet_env p = Inr fox_reply" by (simp add: cet_env_def stub_env_def)
  have "created fox_reply = 1700000000" by (simp add: fox_reply_def)
  then show "fromtimestamp cet_env (created fox_reply) = Inr (fox_datetime\<lparr>hour := 23\<rparr>)"
    by (simp add: cet_timestamp)
qed

lemma cet_paths:
  "path_join (module_dir cet_env) ''images'' = ''/srv/app/images''"
  "path_join ''/srv/app/images'' ''20231114_231320'' = ''/srv/app/images/20231114_231320''"
  "path_join ''/srv/app/images/20231114_231320'' ''generated_image.png''
     = ''/srv/app/images/20231114_231320/generated_image.png''"
  "path_join ''/srv/app/images/20231114_231320'' ''metadata.json''
     = ''/srv/app/images/20231114_231320/metadata.json''"
  by (simp_all add: path_join_def cet_env_def stub_env_def)

lemma cet_persists:
  "\<not> persistence_fails cet_env s ''20231114_231320'' ''http://x/img.png''"
  by (simp add: persistence_fails_def folder_creation_fails_def Let_def cet_env_def stub_env_def)

lemma fox_built:
  "build_response fox_request r fox_image =
       [(''success'', PBool True),
        (''revised_prompt'', PStr ''a red fox in a field''),
        (''url'', PStr ''http://x/img.png''),
        (''model'', PStr ''dalle3''),
        (''size'', PStr ''1024x1024''),
        (''quality'', PStr ''standard''),
        (''style'', PNone),
        (''timestamp'', PInt (created r))]"
  by (simp add: build_response_def fox_request_def fox_image_def
      dict_get_default_def of_optional_str_def style_value_def)

lemma stub_folder_created:
  "\<not> folder_creation_fails stub_env s name"
  by (simp add: folder_creation_fails_def Let_def stub_env_def)

subsection \<open>The artifact folder\<close>

text \<open>
  C8, as amended. The handler has returned a record with \<^verbatim>\<open>success\<close> true and a non-empty
  \<^verbatim>\<open>url\<close>. Then the artifact folder is the folder of the \<^verbatim>\<open>images\<close> directory named by
  \<^verbatim>\<open>strftime("%Y%m%d_%H%M%S")\<close> of the record's timestamp taken in the local time zone of
  the server process: the year, and two digits each for the month, the day, the hour, the
  minute and the second of the timestamp shifted by the zone's UTC offset, with an
  underscore after the day. Whatever the call adds to the storage is that folder, the
  \<^verbatim>\<open>images\<close> directory and the two files in the folder; the folder exists afterwards unless
  creating a directory failed; and the local paths of the record, when it has them, lie in
  the folder. The name has the form \<^verbatim>\<open>YYYYMMDD_HHMMSS\<close>, eight digits, an underscore and six
  digits, where the local year has four digits or the platform pads \<^verbatim>\<open>%Y\<close>. Where the local
  zone is UTC, the timestamp 1700000000 gives the folder \<^verbatim>\<open>20231114_221320\<close>.
\<close>

theorem artifact_folder_is_local_time_rendering:
  assumes "generate_image e a s = (Inr response, s')"
      and "dict_get response ''success'' = Some (PBool True)"
      and "dict_get response ''url'' = Some (PStr u)"
      and "u \<noteq> []"
  shows "\<exists>ts dt name folder.
           dict_get response ''timestamp'' = Some (PInt ts)
         \<and> fromtimestamp e ts = Inr dt
         \<and> name = strftime (pads_year e) dt
         \<and> folder = path_join (path_join (module_dir e) ''images'') name
         \<and> stores_only {path_join (module_dir e) ''images'', folder}
              {path_join folder ''generated_image.png'', path_join folder ''metadata.json''} s s'
         \<and> (folder_creation_fails e s name \<or> path_exists s' folder)
         \<and> (dict_get response ''local_image_path'' = None
              \<and> dict_get response ''local_metadata_path'' = None
            \<or> dict_get response ''local_image_path'' = Some (PStr (path_join folder ''generated_image.png''))
              \<and> dict_get response ''local_metadata_path'' = Some (PStr (path_join folder ''metadata.json''))
              \<and> path_exists s' folder)
         \<and> name = year_field (pads_year e) (year dt) @ pad2 (month dt) @ pad2 (day dt) @ ''_''
                    @ pad2 (hour dt) @ pad2 (minute dt) @ pad2 (second dt)
         \<and> (year dt, month dt, day dt) = ord2ymd ((ts + utc_offset e) div 86400 + 719163)
         \<and> hour dt = (ts + utc_offset e) div 3600 mod 24
         \<and> minute dt = (ts + utc_offset e) div 60 mod 60
         \<and> second dt = (ts + utc_offset e) mod 60
         \<and> (pads_year e \<or> 1000 \<le> year dt \<longrightarrow>
              length name = 15 \<and> list_all is_digit (take 8 name) \<and> name ! 8 = CHR ''_''
              \<and> list_all is_digit (drop 9 name))
         \<and> (utc_offset e = 0 \<and> ts = 1700000000 \<longrightarrow> name = ''20231114_221320'')"
proof -
  from assms(1,2) obtain result dt img rest s2 where
    ft: "fromtimestamp e (created result) = Inr dt"
    and su: "save_if_url e a (build_response a result img) (created result) (strftime (pads_year e) dt) (url img)
         (s\<lparr>calls := calls s @ [ImagesGenerate (build_params a)]\<rparr>) = (Inr response, s2)"
    and s': "s' = s2\<lparr>generated_images := generated_images s2 @ [response]\<rparr>"
    by (rule generate_image_success)
  let ?ts = "created result"
  let ?name = "strftime (pads_year e) dt"
  let ?folder = "path_join (path_join (module_dir e) ''images'') ?name"
  let ?ip = "path_join ?folder ''generated_image.png''"
  let ?mp = "path_join ?folder ''metadata.json''"
  have "dict_get response ''url'' = dict_get (build_response a result img) ''url''"
    by (rule save_if_url_keeps[OF su]) simp_all
  then have "of_optional_str (url img) = PStr u"
    using assms(3) by (simp add: build_response_fields)
  then have u: "url img = Some u" by (rule of_optional_str_PStr)
  note out = save_if_url_outcome[OF su[unfolded u] assms(4)]
  have c1: "dict_get response ''timestamp'' = Some (PInt ?ts)"
    using save_if_url_keeps[OF su, of "''timestamp''"] by (simp add: build_response_fields)
  have c5: "stores_only {path_join (module_dir e) ''images'', ?folder} {?ip, ?mp} s s'"
    unfolding s' by (rule stores_only_bookkeeping) (rule out(1))
  have c6: "folder_creation_fails e s ?name \<or> path_exists s' ?folder"
    using out(2) by (simp add: s')
  have c7: "dict_get response ''local_image_path'' = None
              \<and> dict_get response ''local_metadata_path'' = None
            \<or> dict_get response ''local_image_path'' = Some (PStr ?ip)
              \<and> dict_get response ''local_metadata_path'' = Some (PStr ?mp)
              \<and> path_exists s' ?folder"
    using out(3) by (auto simp: s' build_response_fields dict_get_dict_set)
  have c8: "?name = year_field (pads_year e) (year dt) @ pad2 (month dt) @ pad2 (day dt) @ ''_''
                    @ pad2 (hour dt) @ pad2 (minute dt) @ pad2 (second dt)"
    by (simp add: strftime_def)
  note t = fromtimestamp_Inr[OF ft]
  note lf = localtime_fields[of "utc_offset e" ?ts, folded t(1)]
  have c9: "(year dt, month dt, day dt) = ord2ymd ((?ts + utc_offset e) div 86400 + 719163)
         \<and> hour dt = (?ts + utc_offset e) div 3600 mod 24
         \<and> minute dt = (?ts + utc_offset e) div 60 mod 60
         \<and> second dt = (?ts + utc_offset e) mod 60"
    using lf by (simp only: hms_hour hms_minute hms_second simp_thms)
  have c10: "pads_year e \<or> 1000 \<le> year dt \<longrightarrow>
              length ?name = 15 \<and> list_all is_digit (take 8 ?name) \<and> ?name ! 8 = CHR ''_''
              \<and> list_all is_digit (drop 9 ?name)"
    using strftime_shape[OF ft, of "pads_year e"] by blast
  have c11: "utc_offset e = 0 \<and> ?ts = 1700000000 \<longrightarrow> ?name = ''20231114_221320''"
  proof
    assume "utc_offset e = 0 \<and> ?ts = 1700000000"
    then have "dt = fox_datetime" using ft by (simp add: utc_timestamp)
    then show "?name = ''20231114_221320''" by (simp add: fox_folder)
  qed
  show ?thesis
    apply (rule exI[of _ ?ts], rule exI[of _ dt], rule exI[of _ ?name], rule exI[of _ ?folder])
    using c1 ft c5 c6 c7 c8 c9 c10 c11 by blast
qed

theorem artifact_folder_is_local_time_rendering_witness:
  "fst (generate_image stub_env fox_request empty_state) = Inr fox_response
   \<and> dict_get fox_response ''success'' = Some (PBool True)
   \<and> dict_get fox_response ''url'' = Some (PStr ''http://x/img.png'')
   \<and> dict_get fox_response ''timestamp'' = Some (PInt 1700000000)
   \<and> utc_offset stub_env = 0
   \<and> fromtimestamp stub_env 1700000000 = Inr fox_datetime
   \<and> 1000 \<le> year fox_datetime
   \<and> strftime (pads_year stub_env) fox_datetime = ''20231114_221320''
   \<and> path_exists (snd (generate_image stub_env fox_request empty_state)) ''/srv/app/images/20231114_221320''
   \<and> dict_get fox_response ''local_image_path''
       = Some (PStr ''/srv/app/images/20231114_221320/generated_image.png'')
   \<and> dict_get fox_response ''local_metadata_path''
       = Some (PStr ''/srv/app/images/20231114_221320/metadata.json'')"
proof -
  obtain q s' where g0: "generate_image stub_env fox_request empty_state = (q, s')"
    by (cases "generate_image stub_env fox_request empty_state")
  then have g: "generate_image stub_env fox_request empty_state = (Inr fox_response, s')"
    using fox_run by simp
  have f: "dict_get fox_response ''success'' = Some (PBool True)"
    "dict_get fox_response ''url'' = Some (PStr ''http://x/img.png'')"
    "dict_get fox_response ''timestamp'' = Some (PInt 1700000000)"
    "dict_get fox_response ''local_image_path''
       = Some (PStr ''/srv/app/images/20231114_221320/generated_image.png'')"
    "dict_get fox_response ''local_metadata_path''
       = Some (PStr ''/srv/app/images/20231114_221320/metadata.json'')"
    by (simp_all add: fox_response_def dict_get_def)
  have h4: "''http://x/img.png'' \<noteq> []" by simp
  have z: "utc_offset stub_env = 0" by (simp add: stub_env_def)
  from artifact_folder_is_local_time_rendering[OF g f(1,2) h4]
  obtain ts dt name folder where
    c: "dict_get fox_response ''timestamp'' = Some (PInt ts)"
      "fromtimestamp stub_env ts = Inr dt"
      "name = strftime (pads_year stub_env) dt"
      "folder = path_join (path_join (module_dir stub_env) ''images'') name"
      "folder_creation_fails stub_env empty_state name \<or> path_exists s' folder"
      "utc_offset stub_env = 0 \<and> ts = 1700000000 \<longrightarrow> name = ''20231114_221320''"
    by blast
  have ts: "ts = 1700000000" using c(1) f(3) by simp
  then have name: "name = ''20231114_221320''" using c(6) z by simp
  have dt: "dt = fox_datetime" using c(2) ts by (simp add: fox_timestamp)
  have folder: "folder = ''/srv/app/images/20231114_221320''"
    using c(4) name by (simp add: stub_paths)
  have ex: "path_exists s' ''/srv/app/images/20231114_221320''"
    using c(5) folder by (simp add: stub_folder_created)
  have y: "1000 \<le> year fox_datetime" by (simp add: fox_datetime_def)
  have n: "strftime (pads_year stub_env) fox_datetime = ''20231114_221320''"
    using c(3) name dt by simp
  show ?thesis
    using g f z ex y n fox_timestamp by simp
qed

text \<open>
  C8 as stated fails on the zone and on the form. In a process whose local zone is one
  hour east of UTC, the reply created at 1700000000 is saved in the folder
  \<^verbatim>\<open>20231114_231320\<close>, not \<^verbatim>\<open>20231114_221320\<close>. In a process in UTC on a platform that does not
  pad \<^verbatim>\<open>%Y\<close>, the reply created at -31000000000, in the year 987, is saved in the folder
  \<^verbatim>\<open>9870825_165320\<close>, which has seven characters before the underscore.
\<close>

theorem folder_name_depends_on_zone_and_year:
  "utc_offset cet_env = 3600 \<and> created fox_reply = 1700000000
   \<and> fst (generate_image cet_env fox_request empty_state) =
       Inr [(''success'', PBool True),
            (''revised_prompt'', PStr ''a red fox in a field''),
            (''url'', PStr ''http://x/img.png''),
            (''model'', PStr ''dalle3''),
            (''size'', PStr ''1024x1024''),
            (''quality'', PStr ''standard''),
            (''style'', PNone),
            (''timestamp'', PInt 1700000000),
            (''local_image_path'', PStr ''/srv/app/images/20231114_231320/generated_image.png''),
            (''local_metadata_path'', PStr ''/srv/app/images/20231114_231320/metadata.json'')]
   \<and> utc_offset year_987_env = 0 \<and> pads_year year_987_env = False
   \<and> created year_987_reply = - 31000000000
   \<and> fst (generate_image year_987_env fox_request empty_state) =
       Inr [(''success'', PBool True),
            (''revised_prompt'', PStr ''a red fox in a field''),
            (''url'', PStr ''http://x/img.png''),
            (''model'', PStr ''dalle3''),
            (''size'', PStr ''1024x1024''),
            (''quality'', PStr ''standard''),
            (''style'', PNone),
            (''timestamp'', PInt (- 31000000000)),
            (''local_image_path'', PStr ''/srv/app/images/9870825_165320/generated_image.png''),
            (''local_metadata_path'', PStr ''/srv/app/images/9870825_165320/metadata.json'')]
   \<and> length ''9870825_165320'' = 14"
proof -
  have ok: "\<not> persistence_fails cet_env empty_state (strftime (pads_year cet_env) (fox_datetime\<lparr>hour := 23\<rparr>)) ''http://x/img.png''"
    by (simp add: cet_folder cet_persists)
  have z: "utc_offset cet_env = 3600" "created fox_reply = 1700000000"
    by (simp_all add: cet_env_def stub_env_def fox_reply_def)
  from generate_image_persisted[OF fox_request_valid cet_reply_facts(1,2) fox_reply_facts(3,4) _ ok]
  have "fst (generate_image cet_env fox_request empty_state) =
       Inr (dict_set (dict_set (build_response fox_request fox_reply fox_image) ''local_image_path''
              (PStr ''/srv/app/images/20231114_231320/generated_image.png''))
            ''local_metadata_path'' (PStr ''/srv/app/images/20231114_231320/metadata.json''))"
    by (auto simp: cet_folder cet_paths)
  then have zone: "fst (generate_image cet_env fox_request empty_state) =
       Inr [(''success'', PBool True),
            (''revised_prompt'', PStr ''a red fox in a field''),
            (''url'', PStr ''http://x/img.png''),
            (''model'', PStr ''dalle3''),
            (''size'', PStr ''1024x1024''),
            (''quality'', PStr ''standard''),
            (''style'', PNone),
            (''timestamp'', PInt 1700000000),
            (''local_image_path'', PStr ''/srv/app/images/20231114_231320/generated_image.png''),
            (''local_metadata_path'', PStr ''/srv/app/images/20231114_231320/metadata.json'')]"
    by (simp add: fox_built z)
  let ?dt = "\<lparr>year = 987, month = 8, day = 25, hour = 16, minute = 53, second = 20\<rparr>"
  have ok': "\<not> persistence_fails year_987_env empty_state (strftime (pads_year year_987_env) ?dt) ''http://x/img.png''"
    by (simp add: year_987_reply_facts(4) year_987_folder year_987_persists)
  have z': "utc_offset year_987_env = 0" "pads_year year_987_env = False"
    "created year_987_reply = - 31000000000"
    by (simp_all add: year_987_env_def stub_env_def year_987_reply_def)
  from generate_image_persisted[OF fox_request_valid year_987_reply_facts(1,2,3) fox_reply_facts(4) _ ok']
  have "fst (generate_image year_987_env fox_request empty_state) =
       Inr (dict_set (dict_set (build_response fox_request year_987_reply fox_image) ''local_image_path''
              (PStr ''/srv/app/images/9870825_165320/generated_image.png''))
            ''local_metadata_path'' (PStr ''/srv/app/images/9870825_165320/metadata.json''))"
    by (auto simp: year_987_reply_facts(4) year_987_folder year_987_paths)
  then have form: "fst (generate_image year_987_env fox_request empty_state) =
       Inr [(''success'', PBool True),
            (''revised_prompt'', PStr ''a red fox in a field''),
            (''url'', PStr ''http://x/img.png''),
            (''model'', PStr ''dalle3''),
            (''size'', PStr ''1024x1024''),
            (''quality'', PStr ''standard''),
            (''style'', PNone),
            (''timestamp'', PInt (- 31000000000)),
            (''local_image_path'', PStr ''/srv/app/images/9870825_165320/generated_image.png''),
            (''local_metadata_path'', PStr ''/srv/app/images/9870825_165320/metadata.json'')]"
    by (simp add: fox_built z')
  show ?thesis using z zone z' form by simp
qed

end
